theory Spec2Isabelle
  imports Main "HOL-Library.Sublist"
begin

section \<open>Text and cells\<close>

text \<open>
  The program is \<^verbatim>\<open>src/utils/build_electricity_data.py\<close>. It reads three Excel sheets
  with pandas, finds their header rows, maps their column names onto a fixed set of
  output fields, joins the three results and cleans the joined table.

  A Python \<^verbatim>\<open>str\<close> is modelled as a \<^typ>\<open>string\<close>, each character read as one of the
  code points 0 to 255. \<^verbatim>\<open>str.lower\<close> maps A to Z and the capital letters of
  the range 192 to 222 (but 215, the multiplication sign) to the letter 32 places
  further on, and leaves every other code point of that range alone.
\<close>

definition lower_chr :: "char \<Rightarrow> char" where
  "lower_chr c =
     (let n = (of_char c :: nat)
      in if (65 \<le> n \<and> n \<le> 90) \<or> (192 \<le> n \<and> n \<le> 222 \<and> n \<noteq> 215)
         then char_of (n + 32) else c)"

definition lower :: "string \<Rightarrow> string" where
  "lower s = map lower_chr s"



text \<open>\<^verbatim>\<open>m in cell\<close> on two strings: \<open>m\<close> occurs in \<open>cell\<close> as a contiguous run.\<close>

fun starts_with :: "string \<Rightarrow> string \<Rightarrow> bool" where
  "starts_with [] t = True"
| "starts_with (c # s) [] = False"
| "starts_with (c # s) (d # t) = (c = d \<and> starts_with s t)"

fun contains :: "string \<Rightarrow> string \<Rightarrow> bool" where
  "contains m [] = (m = [])"
| "contains m (c # t) = (starts_with m (c # t) \<or> contains m t)"

text \<open>
  A cell of a sheet read by pandas is a text, a number or missing (NaN). The type \<open>'n\<close>
  of numbers is left open; \<open>num_str\<close> is Python's \<^verbatim>\<open>str\<close> on a number, and
  \<^verbatim>\<open>astype(str)\<close> turns a missing cell into the text \<^verbatim>\<open>nan\<close>.
\<close>

datatype 'n cell = Null | Str string | Num 'n

fun cell_str :: "('n \<Rightarrow> string) \<Rightarrow> 'n cell \<Rightarrow> string" where
  "cell_str num_str Null = ''nan''"
| "cell_str num_str (Str s) = s"
| "cell_str num_str (Num n) = num_str n"

fun notna :: "'n cell \<Rightarrow> bool" where
  "notna Null = False"
| "notna (Str s) = True"
| "notna (Num n) = True"

section \<open>Header locator\<close>

text \<open>
  \<^verbatim>\<open>detect_header_row\<close>. The sheet is read without a header, so its index is
  0, 1, 2, ...; it is a list of rows, each a list of cells. The marker list depends on
  the schedule name, with a default list for any other name.
\<close>

definition markers_of :: "string \<Rightarrow> string list" where
  "markers_of schedule =
     (if schedule = ''utility'' then
        [''data year'', ''utility number'', ''utility name'', ''state'']
      else if schedule = ''operational'' then
        [''data year'', ''utility number'', ''summer'', ''winter'', ''demand'']
      else if schedule = ''sales'' then
        [''data year'', ''utility number'', ''state'', ''residential'', ''commercial'',
         ''industrial'']
      else [''data year'', ''utility number'', ''utility name''])"

text \<open>The inner loop: one point for each marker found in some cell of the row.\<close>

fun row_score :: "string list \<Rightarrow> string list \<Rightarrow> nat" where
  "row_score [] row_values = 0"
| "row_score (m # ms) row_values =
     (if list_ex (contains m) row_values then 1 else 0) + row_score ms row_values"

definition threshold :: "string list \<Rightarrow> nat" where
  "threshold markers = max 2 (length markers div 2)"

text \<open>The outer loop, from row \<open>i\<close> on: it stops at the first row that reaches the threshold.\<close>

fun scan_rows :: "string list \<Rightarrow> string list list \<Rightarrow> nat \<Rightarrow> nat option" where
  "scan_rows markers [] i = None"
| "scan_rows markers (row_values # rest) i =
     (if threshold markers \<le> row_score markers row_values then Some i
      else scan_rows markers rest (Suc i))"

definition lower_rows :: "('n \<Rightarrow> string) \<Rightarrow> 'n cell list list \<Rightarrow> string list list" where
  "lower_rows num_str raw = map (map (\<lambda>x. lower (cell_str num_str x))) raw"

definition header_scan :: "('n \<Rightarrow> string) \<Rightarrow> 'n cell list list \<Rightarrow> string \<Rightarrow> nat option" where
  "header_scan num_str raw schedule =
     scan_rows (map lower (markers_of schedule)) (lower_rows num_str raw) 0"

text \<open>When no row qualifies the function warns (if verbose) and answers row 0.\<close>

definition detect_header_row :: "('n \<Rightarrow> string) \<Rightarrow> 'n cell list list \<Rightarrow> string \<Rightarrow> nat" where
  "detect_header_row num_str raw schedule =
     (case header_scan num_str raw schedule of Some i \<Rightarrow> i | None \<Rightarrow> 0)"

section \<open>Data frames, printed lines and exceptions\<close>

text \<open>
  A pandas column (a Series) has a dtype and its cells; only whether the dtype is a
  number dtype matters to the program (\<^verbatim>\<open>select_dtypes(include="number")\<close>). A data
  frame is the list of its columns in order, each under its name.
\<close>

datatype dtype = Number | Object

type_synonym 'n series = "dtype \<times> 'n cell list"

type_synonym 'n dataframe = "(string \<times> 'n series) list"

definition df_columns :: "'n dataframe \<Rightarrow> string list" where
  "df_columns df = map fst df"

definition nrows :: "'n dataframe \<Rightarrow> nat" where
  "nrows df = (case df of [] \<Rightarrow> 0 | (name, (dt, cells)) # rest \<Rightarrow> length cells)"

text \<open>
  What the program prints, and the message of an exception, is kept as the list of its
  pieces: literal text, and the values put between them (a string, a list of strings, a
  list of column positions), which Python would render with \<^verbatim>\<open>str\<close> and \<^verbatim>\<open>repr\<close>.
\<close>

datatype pyval = S string | L "string list" | N "nat list"

type_synonym message = "pyval list"

text \<open>
  \<open>KeyError msg printed\<close> is a \<^verbatim>\<open>KeyError(msg)\<close> together with the lines the function
  printed just before raising it. \<open>IndexError\<close> is what \<^verbatim>\<open>df.columns[0]\<close> and
  \<^verbatim>\<open>data.iloc[:, j]\<close> raise out of range, \<open>TypeError\<close> what adding a text and a
  number raises.
\<close>

datatype error = KeyError message "message list" | IndexError | TypeError

fun and_then :: "error + 'a \<Rightarrow> ('a \<Rightarrow> error + 'b) \<Rightarrow> error + 'b" where
  "and_then (Inl e) f = Inl e"
| "and_then (Inr x) f = f x"

text \<open>
  \<^verbatim>\<open>df[col]\<close> and \<^verbatim>\<open>df[col] = series\<close>. The column name comes from \<^verbatim>\<open>find_col\<close>,
  which may have answered \<^verbatim>\<open>None\<close>; pandas raises \<^verbatim>\<open>KeyError\<close> on a name that is not
  a column. Assigning to an existing name replaces that column in place, to a new name
  appends a column.
\<close>

definition getitem :: "'n dataframe \<Rightarrow> string option \<Rightarrow> error + 'n series" where
  "getitem df col =
     (case col of
        None \<Rightarrow> Inl (KeyError [] [])
      | Some c \<Rightarrow> (case map_of df c of None \<Rightarrow> Inl (KeyError [S c] []) | Some x \<Rightarrow> Inr x))"

fun setitem :: "'n dataframe \<Rightarrow> string \<Rightarrow> 'n series \<Rightarrow> 'n dataframe" where
  "setitem [] c x = [(c, x)]"
| "setitem ((d, y) # df) c x = (if d = c then (c, x) # df else (d, y) # setitem df c x)"

text \<open>\<^verbatim>\<open>df[name] = pd.NA\<close>: a column of missing values, of dtype object.\<close>

definition set_na :: "'n dataframe \<Rightarrow> string \<Rightarrow> 'n dataframe" where
  "set_na df name = setitem df name (Object, replicate (nrows df) Null)"

section \<open>Fuzzy column resolver\<close>

text \<open>
  \<^verbatim>\<open>find_col\<close>: the first column whose lowercased name contains every string of
  \<open>include\<close> and none of \<open>exclude\<close> (every caller passes \<open>include\<close> as a list).
\<close>

definition col_matches :: "string list \<Rightarrow> string list \<Rightarrow> string \<Rightarrow> bool" where
  "col_matches include exclude col =
     (let name = lower col
      in list_all (\<lambda>s. contains (lower s) name) include \<and>
         \<not> list_ex (\<lambda>s. contains (lower s) name) exclude)"

fun first_match :: "string list \<Rightarrow> string list \<Rightarrow> string list \<Rightarrow> string option" where
  "first_match include exclude [] = None"
| "first_match include exclude (col # cols) =
     (if col_matches include exclude col then Some col
      else first_match include exclude cols)"

definition available_columns :: "string list \<Rightarrow> message list" where
  "available_columns cols = map (\<lambda>c. [S ''  -'', S c]) cols"

definition no_column_error :: "string list \<Rightarrow> string list \<Rightarrow> string list \<Rightarrow> string \<Rightarrow> error" where
  "no_column_error cols include exclude label =
     KeyError [S ''No column found for '', if label \<noteq> [] then S label else L include]
       ([S ''ERROR: No column found matching include='', L include, S '', exclude='', L exclude]
        # [S ''Available columns:'']
        # available_columns cols)"

definition find_col ::
  "'n dataframe \<Rightarrow> string list \<Rightarrow> string list \<Rightarrow> bool \<Rightarrow> string \<Rightarrow> error + string option" where
  "find_col df include exclude required label =
     (case first_match include exclude (df_columns df) of
        Some col \<Rightarrow> Inr (Some col)
      | None \<Rightarrow>
          if required then Inl (no_column_error (df_columns df) include exclude label)
          else Inr None)"

subsection \<open>Join key column\<close>

text \<open>
  \<^verbatim>\<open>get_utility_id_col\<close>. \<open>lower_map\<close> is the dictionary from lowercased column
  names to column names; where two columns share a lowercased name the later one stays.
  The result is the column and the warning lines printed on the way.
\<close>

definition lower_map :: "string list \<Rightarrow> string \<Rightarrow> string option" where
  "lower_map cols = map_of (rev (map (\<lambda>c. (lower c, c)) cols))"

definition candidates :: "string list" where
  "candidates =
     [''utility number'', ''utility id'', ''eia utility id'', ''utility_identifier'',
      ''respondent id'', ''respondentid'', ''respondent identification'', ''entity id'',
      ''eiaid'']"

fun first_candidate :: "(string \<Rightarrow> string option) \<Rightarrow> string list \<Rightarrow> string option" where
  "first_candidate m [] = None"
| "first_candidate m (key # keys) =
     (case m key of Some col \<Rightarrow> Some col | None \<Rightarrow> first_candidate m keys)"

definition name_warning :: "message list" where
  "name_warning =
     [[S ''WARNING: Using 'Utility Name' as join key because no Utility Number / ID column was found.'']]"

definition first_column_warning :: "string list \<Rightarrow> message list" where
  "first_column_warning cols =
     [S ''WARNING: Could not find a Utility ID / Number column. Using the first column as join key.'']
     # [S ''Columns present in this DataFrame:'']
     # available_columns cols"

definition get_utility_id_col :: "'n dataframe \<Rightarrow> error + (string \<times> message list)" where
  "get_utility_id_col df =
     (let cols = df_columns df in
      case first_candidate (lower_map cols) candidates of
        Some col \<Rightarrow> Inr (col, [])
      | None \<Rightarrow>
     (case first_match [''utility'', ''number''] [] cols of
        Some col \<Rightarrow> Inr (col, [])
      | None \<Rightarrow>
     (case first_match [''respondent'', ''id''] [] cols of
        Some col \<Rightarrow> Inr (col, [])
      | None \<Rightarrow>
     (case first_match [''utility'', ''name''] [] cols of
        Some col \<Rightarrow> Inr (col, name_warning)
      | None \<Rightarrow>
     (case cols of
        [] \<Rightarrow> Inl IndexError
      | col # rest \<Rightarrow> Inr (col, first_column_warning cols))))))"

section \<open>Schedule loaders\<close>

text \<open>
  The loaders work on the data frame that \<^verbatim>\<open>read_excel_with_detected_header\<close> returns
  (pandas read the sheet with the detected row as header; the column names are strings,
  stripped). A chain of optional lookups: each \<^verbatim>\<open>find_col(..., required=False)\<close> is
  tried while the result is still \<^verbatim>\<open>None\<close>.
\<close>

fun first_found ::
  "'n dataframe \<Rightarrow> (string list \<times> string list \<times> string) list \<Rightarrow> error + string option" where
  "first_found df [] = Inr None"
| "first_found df ((include, exclude, label) # rest) =
     and_then (find_col df include exclude False label)
       (\<lambda>col. if col = None then first_found df rest else Inr col)"

text \<open>\<^verbatim>\<open>if col is None: df[dummy] = pd.NA; col = dummy\<close>\<close>

definition or_dummy ::
  "'n dataframe \<Rightarrow> string option \<Rightarrow> string \<Rightarrow> 'n dataframe \<times> string option" where
  "or_dummy df col dummy = (if col = None then (set_na df dummy, Some dummy) else (df, col))"

definition astype_str :: "('n \<Rightarrow> string) \<Rightarrow> 'n series \<Rightarrow> 'n series" where
  "astype_str num_str x = (Object, map (\<lambda>c. Str (cell_str num_str c)) (snd x))"

subsection \<open>Utility data\<close>

definition load_utility_schedule :: "('n \<Rightarrow> string) \<Rightarrow> 'n dataframe \<Rightarrow> error + 'n dataframe" where
  "load_utility_schedule num_str df =
     and_then (get_utility_id_col df) (\<lambda>(id_col, warnings).
     and_then (find_col df [''utility name''] [] False []) (\<lambda>name_col.
     and_then (if name_col = None then find_col df [''entity''] [] True ''Utility Name''
               else Inr name_col) (\<lambda>name_col.
     and_then (find_col df [''state''] [] True ''State'') (\<lambda>state_col.
     and_then (first_found df
                 [([''ownership''], [], []), ([''entity type''], [], []),
                  ([''ownership type''], [], [])]) (\<lambda>type_col.
     case or_dummy df type_col ''__type_dummy__'' of (df, type_col) \<Rightarrow>
     and_then (getitem df (Some id_col)) (\<lambda>number.
     and_then (getitem df name_col) (\<lambda>name.
     and_then (getitem df state_col) (\<lambda>state.
     and_then (getitem df type_col) (\<lambda>type.
     Inr (setitem (setitem (setitem (setitem []
            ''Utility.Number'' number)
            ''Utility.Name'' (astype_str num_str name))
            ''Utility.State'' state)
            ''Utility.Type'' type))))))))))"

subsection \<open>Operational data\<close>

text \<open>
  Up to the revenue total, the body of \<^verbatim>\<open>load_operational_schedule\<close> is a sequence of
  statements of two shapes, run on the pair of \<^verbatim>\<open>df\<close> and \<^verbatim>\<open>out\<close>:
  \<^item> \<open>Required field include label\<close> is
    \<^verbatim>\<open>out[field] = df[find_col(df, include, label=label)]\<close>;
  \<^item> \<open>Optional field specs dummy\<close> is the chain of \<^verbatim>\<open>find_col(..., required=False)\<close>
    over \<open>specs\<close>, then the dummy column if all of them answered \<^verbatim>\<open>None\<close>, then
    \<^verbatim>\<open>out[field] = df[col]\<close>.
\<close>

datatype stmt =
    Required (target: string) "string list" string
  | Optional (target: string) "(string list \<times> string list \<times> string) list" string

fun exec :: "stmt \<Rightarrow> 'n dataframe \<times> 'n dataframe \<Rightarrow> error + 'n dataframe \<times> 'n dataframe" where
  "exec (Required field include label) (df, out) =
     and_then (find_col df include [] True label) (\<lambda>col.
     and_then (getitem df col) (\<lambda>x. Inr (df, setitem out field x)))"
| "exec (Optional field specs dummy) (df, out) =
     and_then (first_found df specs) (\<lambda>col.
     case or_dummy df col dummy of (df, col) \<Rightarrow>
     and_then (getitem df col) (\<lambda>x. Inr (df, setitem out field x)))"

fun exec_all :: "stmt list \<Rightarrow> 'n dataframe \<times> 'n dataframe \<Rightarrow> error + 'n dataframe \<times> 'n dataframe" where
  "exec_all [] st = Inr st"
| "exec_all (c # cs) st = and_then (exec c st) (exec_all cs)"

definition operational_statements :: "stmt list" where
  "operational_statements =
     [Required ''Demand.Summer Peak'' [''summer'', ''peak'', ''demand''] ''Demand.Summer Peak'',
      Required ''Demand.Winter Peak'' [''winter'', ''peak'', ''demand''] ''Demand.Winter Peak'',
      Required ''Sources.Generation'' [''net'', ''generation''] ''Sources.Generation'',
      Required ''Sources.Purchased'' [''wholesale'', ''power'', ''purchases''] ''Sources.Purchased'',
      Optional ''Sources.Other''
        [([''other'', ''source''], [], []), ([''other'', ''supply''], [], [])]
        ''__other_sources_dummy__'',
      Optional ''Sources.Total''
        [([''total'', ''sources''], [], []), ([''total'', ''energy'', ''sources''], [], [])]
        ''__total_sources_dummy__'',
      Optional ''Uses.Retail''
        [([''sales'', ''ultimate'', ''customers''], [], []),
         ([''sales'', ''to'', ''ultimate''], [], []),
         ([''retail'', ''sales''], [], []),
         ([''sales''], [''for resale''], [])]
        ''__uses_retail_dummy__'',
      Required ''Uses.Resale'' [''sales'', ''for resale''] ''Uses.Resale'',
      Required ''Uses.No Charge'' [''furnished'', ''without'', ''charge''] ''Uses.No Charge'',
      Required ''Uses.Consumed'' [''consumed'', ''respondent''] ''Uses.Consumed'',
      Optional ''Uses.Losses''
        [([''total'', ''energy'', ''loss''], [], ''Uses.Losses''),
         ([''losses''], [], ''Uses.Losses'')]
        ''__losses_dummy__'',
      Optional ''Uses.Total''
        [([''total'', ''disposition''], [], []), ([''total'', ''uses''], [], [])]
        ''__uses_total_dummy__'',
      Required ''Revenues.Retail'' [''from'', ''retail'', ''sales''] ''Revenues.Retail'',
      Required ''Revenue.Delivery'' [''from'', ''delivery'', ''customers''] ''Revenue.Delivery'',
      Required ''Revenue.Resale'' [''from'', ''sales'', ''for resale''] ''Revenue.Resale'',
      Required ''Revenue.Adjustments'' [''from'', ''credits'', ''adjustments'']
        ''Revenue.Adjustments'',
      Required ''Revenue.Transmission'' [''from'', ''transmission''] ''Revenue.Transmission'',
      Required ''Revenue.Other'' [''from'', ''other''] ''Revenue.Other'']"

text \<open>The dummy columns that these statements may add to \<^verbatim>\<open>df\<close>.\<close>

definition operational_dummies :: "string list" where
  "operational_dummies =
     [''__other_sources_dummy__'', ''__total_sources_dummy__'', ''__uses_retail_dummy__'',
      ''__losses_dummy__'', ''__uses_total_dummy__'']"

definition load_operational_fields ::
  "'n dataframe \<Rightarrow> error + 'n dataframe \<times> 'n dataframe" where
  "load_operational_fields df =
     and_then (get_utility_id_col df) (\<lambda>(id_col, warnings).
     and_then (getitem df (Some id_col)) (\<lambda>number.
     exec_all operational_statements (df, setitem [] ''Utility.Number'' number)))"

text \<open>
  Adding two columns cell by cell. A missing cell on either side gives a missing cell;
  two numbers are added, two texts are joined, a text and a number raise
  \<^verbatim>\<open>TypeError\<close>. The sum has a number dtype if both columns have.
\<close>

fun cell_add :: "('n::plus) cell \<Rightarrow> 'n cell \<Rightarrow> error + 'n cell" where
  "cell_add Null y = Inr Null"
| "cell_add x Null = Inr Null"
| "cell_add (Num a) (Num b) = Inr (Num (a + b))"
| "cell_add (Str a) (Str b) = Inr (Str (a @ b))"
| "cell_add (Str a) (Num b) = Inl TypeError"
| "cell_add (Num a) (Str b) = Inl TypeError"

fun cells_add :: "('n::plus) cell list \<Rightarrow> 'n cell list \<Rightarrow> error + 'n cell list" where
  "cells_add (x # xs) (y # ys) =
     and_then (cell_add x y) (\<lambda>z. and_then (cells_add xs ys) (\<lambda>zs. Inr (z # zs)))"
| "cells_add xs ys = Inr []"

definition series_add :: "('n::plus) series \<Rightarrow> 'n series \<Rightarrow> error + 'n series" where
  "series_add x y =
     and_then (cells_add (snd x) (snd y)) (\<lambda>zs.
     Inr (if fst x = Number \<and> fst y = Number then Number else Object, zs))"

text \<open>
  \<^verbatim>\<open>Revenue.Total\<close>: the column that \<^verbatim>\<open>find_col\<close> gives for \<^verbatim>\<open>total\<close> (without
  \<^verbatim>\<open>sales\<close>, \<^verbatim>\<open>customers\<close>, \<^verbatim>\<open>mwh\<close>, \<^verbatim>\<open>kwh\<close>) if there is one, else the sum, from
  left to right, of the six revenue columns of \<^verbatim>\<open>out\<close>.
\<close>

definition revenue_parts :: "string list" where
  "revenue_parts =
     [''Revenues.Retail'', ''Revenue.Delivery'', ''Revenue.Resale'', ''Revenue.Adjustments'',
      ''Revenue.Transmission'', ''Revenue.Other'']"

definition sum_parts :: "('n::plus) dataframe \<Rightarrow> error + 'n series" where
  "sum_parts out =
     and_then (getitem out (Some ''Revenues.Retail'')) (\<lambda>a.
     and_then (getitem out (Some ''Revenue.Delivery'')) (\<lambda>b.
     and_then (series_add a b) (\<lambda>ab.
     and_then (getitem out (Some ''Revenue.Resale'')) (\<lambda>c.
     and_then (series_add ab c) (\<lambda>abc.
     and_then (getitem out (Some ''Revenue.Adjustments'')) (\<lambda>d.
     and_then (series_add abc d) (\<lambda>abcd.
     and_then (getitem out (Some ''Revenue.Transmission'')) (\<lambda>e.
     and_then (series_add abcd e) (\<lambda>abcde.
     and_then (getitem out (Some ''Revenue.Other'')) (\<lambda>f.
     series_add abcde f))))))))))"

definition load_operational_schedule :: "('n::plus) dataframe \<Rightarrow> error + 'n dataframe" where
  "load_operational_schedule df =
     and_then (load_operational_fields df) (\<lambda>(df, out).
     and_then (find_col df [''total''] [''sales'', ''customers'', ''mwh'', ''kwh''] False
                 ''Revenue.Total'') (\<lambda>rev_total_col.
     if rev_total_col \<noteq> None then
       and_then (getitem df rev_total_col) (\<lambda>x. Inr (setitem out ''Revenue.Total'' x))
     else
       and_then (sum_parts out) (\<lambda>x. Inr (setitem out ''Revenue.Total'' x))))"

subsection \<open>Sales to ultimate customers\<close>


definition cell_at :: "'n cell list \<Rightarrow> nat \<Rightarrow> 'n cell" where
  "cell_at row j = (if j < length row then row ! j else Null)"



fun first_index :: "('a \<Rightarrow> bool) \<Rightarrow> 'a list \<Rightarrow> nat \<Rightarrow> nat option" where
  "first_index P [] i = None"
| "first_index P (x # xs) i = (if P x then Some i else first_index P xs (Suc i))"










fun fillna0 :: "('n::zero) cell \<Rightarrow> 'n cell" where
  "fillna0 Null = Num 0"
| "fillna0 (Str s) = Str s"
| "fillna0 (Num v) = Num v"

definition remove_commas :: "string \<Rightarrow> string" where
  "remove_commas s = filter (\<lambda>c. c \<noteq> CHR '','') s"







section \<open>Merging and cleaning\<close>

text \<open>
  \<^verbatim>\<open>main\<close> joins the three loaded tables and cleans the result row by row. Here a table
  is seen as its columns (name and dtype) and its rows; \<open>table_of\<close> gives that view of
  a data frame.
\<close>

type_synonym 'n table = "(string \<times> dtype) list \<times> 'n cell list list"

definition table_of :: "'n dataframe \<Rightarrow> 'n table" where
  "table_of df =
     (map (\<lambda>(name, dt, cells). (name, dt)) df,
      map (\<lambda>i. map (\<lambda>(name, dt, cells). cell_at cells i) df) [0..<nrows df])"

fun index_of :: "'a \<Rightarrow> 'a list \<Rightarrow> nat option" where
  "index_of x [] = None"
| "index_of x (y # ys) = (if x = y then Some 0 else map_option Suc (index_of x ys))"

definition delete_at :: "nat \<Rightarrow> 'a list \<Rightarrow> 'a list" where
  "delete_at j xs = take j xs @ drop (Suc j) xs"

text \<open>
  \<^verbatim>\<open>left.merge(right, on=key, how="left")\<close>: every row of the left table in order, once
  for each row of the right table with an equal key, in the right table's order, or once
  with the right table's other columns missing if there is none. Apart from the key the
  two sides have different column names here, so no column is renamed. Missing keys are
  equal to each other, as in pandas. The key column keeps the dtype of the left side, as
  it does in pandas when the two key columns have the same dtype and when the left one
  has dtype object.
\<close>

definition merge_left :: "'n table \<Rightarrow> 'n table \<Rightarrow> string \<Rightarrow> error + 'n table" where
  "merge_left left right key =
     (case index_of key (map fst (fst left)) of
        None \<Rightarrow> Inl (KeyError [S key] [])
      | Some i \<Rightarrow>
     (case index_of key (map fst (fst right)) of
        None \<Rightarrow> Inl (KeyError [S key] [])
      | Some j \<Rightarrow>
          Inr (fst left @ delete_at j (fst right),
               concat (map (\<lambda>l.
                 case filter (\<lambda>r. cell_at r j = cell_at l i) (snd right) of
                   [] \<Rightarrow> [l @ replicate (length (fst right) - 1) Null]
                 | m # ms \<Rightarrow> map (\<lambda>r. l @ delete_at j r) (m # ms)) (snd left)))))"

definition output_columns :: "string list" where
  "output_columns =
     [''Utility.Number'', ''Utility.Name'', ''Utility.State'', ''Utility.Type'',
      ''Demand.Summer Peak'', ''Demand.Winter Peak'',
      ''Sources.Generation'', ''Sources.Purchased'', ''Sources.Other'', ''Sources.Total'',
      ''Uses.Retail'', ''Uses.Resale'', ''Uses.No Charge'', ''Uses.Consumed'',
      ''Uses.Losses'', ''Uses.Total'',
      ''Revenues.Retail'', ''Revenue.Delivery'', ''Revenue.Resale'', ''Revenue.Adjustments'',
      ''Revenue.Transmission'', ''Revenue.Other'', ''Revenue.Total'',
      ''Retail.Residential.Revenue'', ''Retail.Residential.Sales'', ''Retail.Residential.Customers'',
      ''Retail.Commercial.Revenue'', ''Retail.Commercial.Sales'', ''Retail.Commercial.Customers'',
      ''Retail.Industrial.Revenue'', ''Retail.Industrial.Sales'', ''Retail.Industrial.Customers'',
      ''Retail.Transportation.Revenue'', ''Retail.Transportation.Sales'',
      ''Retail.Transportation.Customers'',
      ''Retail.Total.Revenue'', ''Retail.Total.Sales'', ''Retail.Total.Customers'']"

text \<open>\<^verbatim>\<open>for col in columns: if col not in merged.columns: merged[col] = pd.NA\<close>\<close>

fun add_missing :: "string list \<Rightarrow> 'n table \<Rightarrow> 'n table" where
  "add_missing [] t = t"
| "add_missing (col # cols) t =
     add_missing cols
       (if col \<in> set (map fst (fst t)) then t
        else (fst t @ [(col, Object)], map (\<lambda>r. r @ [Null]) (snd t)))"

text \<open>\<^verbatim>\<open>merged[columns]\<close>\<close>

fun positions :: "string list \<Rightarrow> string list \<Rightarrow> error + nat list" where
  "positions names [] = Inr []"
| "positions names (col # cols) =
     (case index_of col names of
        None \<Rightarrow> Inl (KeyError [S col] [])
      | Some i \<Rightarrow> and_then (positions names cols) (\<lambda>is. Inr (i # is)))"

definition select_columns :: "string list \<Rightarrow> 'n table \<Rightarrow> error + 'n table" where
  "select_columns cols t =
     and_then (positions (map fst (fst t)) cols) (\<lambda>is.
     Inr (map (\<lambda>i. fst t ! i) is, map (\<lambda>r. map (cell_at r) is) (snd t)))"

text \<open>
  \<^verbatim>\<open>dropna(how="all", subset=num_cols)\<close> keeps a row if one of its cells in a column of
  number dtype is present.
\<close>

definition num_cols :: "'n table \<Rightarrow> nat list" where
  "num_cols t = filter (\<lambda>i. snd (fst t ! i) = Number) [0..<length (fst t)]"

definition dropna_all :: "nat list \<Rightarrow> 'n cell list list \<Rightarrow> 'n cell list list" where
  "dropna_all cols rows = filter (\<lambda>r. list_ex (\<lambda>i. notna (cell_at r i)) cols) rows"

text \<open>\<^verbatim>\<open>drop_duplicates()\<close> keeps the first of equal rows.\<close>

fun drop_seen :: "'a list \<Rightarrow> 'a list \<Rightarrow> 'a list" where
  "drop_seen seen [] = []"
| "drop_seen seen (r # rs) =
     (if r \<in> set seen then drop_seen seen rs else r # drop_seen (r # seen) rs)"

definition drop_duplicates :: "'a list \<Rightarrow> 'a list" where
  "drop_duplicates rows = drop_seen [] rows"

text \<open>The merge and the cleaning up to \<^verbatim>\<open>fillna(0)\<close>.\<close>

definition merge_tables :: "('n::zero) table \<Rightarrow> 'n table \<Rightarrow> 'n table \<Rightarrow> error + 'n table" where
  "merge_tables util_df op_df sales_df =
     and_then (merge_left util_df op_df ''Utility.Number'') (\<lambda>merged.
     and_then (merge_left merged sales_df ''Utility.Number'') (\<lambda>merged.
     and_then (select_columns output_columns (add_missing output_columns merged)) (\<lambda>merged.
     Inr (fst merged,
          map (map fillna0) (drop_duplicates (dropna_all (num_cols merged) (snd merged)))))))"

text \<open>
  The rest of the cleaning: a cell that is exactly \<^verbatim>\<open>.\<close> becomes 0, commas are taken
  out of every text, the year is added, and each column that \<^verbatim>\<open>pd.to_numeric\<close> accepts
  whole is converted (a column with a text that is no number stays as it is).
\<close>

definition mask_dot :: "('n::zero) cell \<Rightarrow> 'n cell" where
  "mask_dot x = (if x = Str ''.'' then Num 0 else x)"

fun replace_commas :: "'n cell \<Rightarrow> 'n cell" where
  "replace_commas (Str s) = Str (remove_commas s)"
| "replace_commas x = x"

fun to_numeric_raise :: "(string \<Rightarrow> 'n option option) \<Rightarrow> 'n cell \<Rightarrow> 'n cell option" where
  "to_numeric_raise to_num Null = Some Null"
| "to_numeric_raise to_num (Num v) = Some (Num v)"
| "to_numeric_raise to_num (Str s) =
     (case to_num s of Some (Some v) \<Rightarrow> Some (Num v) | Some None \<Rightarrow> Some Null | None \<Rightarrow> None)"

definition convert_cell :: "(string \<Rightarrow> 'n option option) \<Rightarrow> nat \<Rightarrow> 'n cell list \<Rightarrow> 'n cell list" where
  "convert_cell to_num j r =
     (case to_numeric_raise to_num (cell_at r j) of Some x \<Rightarrow> r[j := x] | None \<Rightarrow> r)"

definition convert_column :: "(string \<Rightarrow> 'n option option) \<Rightarrow> nat \<Rightarrow> 'n table \<Rightarrow> 'n table" where
  "convert_column to_num j t =
     (if list_all (\<lambda>r. to_numeric_raise to_num (cell_at r j) \<noteq> None) (snd t)
      then ((fst t)[j := (fst (fst t ! j), Number)], map (convert_cell to_num j) (snd t))
      else t)"

definition finish_table ::
  "(string \<Rightarrow> 'n option option) \<Rightarrow> 'n \<Rightarrow> ('n::zero) table \<Rightarrow> 'n table" where
  "finish_table to_num year merged =
     (let rows = map (map (\<lambda>x. replace_commas (mask_dot x))) (snd merged);
          with_year = (fst merged @ [(''Year'', Number)], map (\<lambda>r. r @ [Num year]) rows)
      in fold (convert_column to_num) [0..<length (fst with_year)] with_year)"

definition main_table ::
  "(string \<Rightarrow> 'n option option) \<Rightarrow> 'n \<Rightarrow> ('n::zero) table \<Rightarrow> 'n table \<Rightarrow> 'n table \<Rightarrow>
   error + 'n table" where
  "main_table to_num year util_df op_df sales_df =
     and_then (merge_tables util_df op_df sales_df) (\<lambda>merged.
     Inr (finish_table to_num year merged))"

section \<open>Numbers in the examples\<close>

text \<open>
  The loaders are stated for any type of numbers. The examples take the integers, with
  Python's \<^verbatim>\<open>str\<close> of an integer as \<open>num_str\<close>.
\<close>

fun str_nat :: "nat \<Rightarrow> string" where
  "str_nat n =
     (if n < 10 then [char_of (48 + n)]
      else str_nat (n div 10) @ [char_of (48 + n mod 10)])"

declare str_nat.simps [simp del]

definition str_int :: "int \<Rightarrow> string" where
  "str_int i = (if i < 0 then CHR ''-'' # str_nat (nat (- i)) else str_nat (nat i))"



section \<open>Example inputs\<close>

text \<open>A utility sheet: a title line above the header row, then one utility.\<close>

definition utility_sheet :: "int cell list list" where
  "utility_sheet =
     [[Str ''Utility Level Data'', Null, Null, Null],
      [Str ''Data Year'', Str ''Utility Number'', Str ''Utility NAME'', Str ''State''],
      [Num 2024, Num 55, Str ''City of Aberdeen - (MS)'', Str ''MS'']]"

text \<open>A table with a utility name but no utility number.\<close>

definition named_only :: "int dataframe" where
  "named_only =
     [(''Data Year'', (Number, [Num 2024])),
      (''Utility Name'', (Object, [Str ''City of Aberdeen''])),
      (''State'', (Object, [Str ''MS'']))]"

text \<open>A utility table without a state column.\<close>

definition utility_no_state :: "int dataframe" where
  "utility_no_state =
     [(''Data Year'', (Number, [Num 2024])),
      (''Utility Number'', (Number, [Num 55])),
      (''Utility Name'', (Object, [Str ''City of Aberdeen'']))]"

text \<open>
  An operational table of two utilities. Every column with \<^verbatim>\<open>total\<close> in its name also
  has \<^verbatim>\<open>MWh\<close> in it, so none is taken for the revenue total.
\<close>

definition operational_mwh :: "int dataframe" where
  "operational_mwh =
     [(''Utility Number'', (Number, [Num 55, Num 59])),
      (''Summer Peak Demand'', (Number, [Num 10, Num 20])),
      (''Winter Peak Demand'', (Number, [Num 11, Num 21])),
      (''Net Generation'', (Number, [Num 0, Num 5])),
      (''Wholesale Power Purchases'', (Number, [Num 100, Num 200])),
      (''Total Sources MWh'', (Number, [Num 100, Num 205])),
      (''Retail Sales'', (Number, [Num 90, Num 190])),
      (''Sales for Resale'', (Number, [Num 0, Num 0])),
      (''Furnished without Charge'', (Number, [Num 0, Num 1])),
      (''Consumed by Respondent without Charge'', (Number, [Num 1, Num 2])),
      (''Total Energy Losses MWh'', (Number, [Num 9, Num 12])),
      (''Total Disposition MWh'', (Number, [Num 100, Num 205])),
      (''From Retail Sales'', (Number, [Num 1000, Num 2000])),
      (''From Delivery Customers'', (Number, [Num 1, Num 2])),
      (''From Sales for Resale'', (Number, [Num 3, Num 4])),
      (''From Credits or Adjustments'', (Number, [Num 5, Null])),
      (''From Transmission'', (Number, [Num 7, Num 8])),
      (''From Other'', (Number, [Num 9, Num 10]))]"

text \<open>The same table without its last column.\<close>

definition operational_no_other :: "int dataframe" where
  "operational_no_other = butlast operational_mwh"

text \<open>
  The first table without \<^verbatim>\<open>Total Sources MWh\<close>. No column of it has \<^verbatim>\<open>total\<close> in its
  name without \<^verbatim>\<open>mwh\<close>.
\<close>

definition operational_no_total_sources :: "int dataframe" where
  "operational_no_total_sources =
     filter (\<lambda>column. fst column \<noteq> ''Total Sources MWh'') operational_mwh"

text \<open>
  A table whose energy totals are named without the unit, and whose last column
  \<^verbatim>\<open>Total\<close> is the total revenue: in each row the sum of the six revenue columns.
\<close>

definition operational_totals :: "int dataframe" where
  "operational_totals =
     [(''Utility Number'', (Number, [Num 55, Num 59])),
      (''Summer Peak Demand'', (Number, [Num 10, Num 20])),
      (''Winter Peak Demand'', (Number, [Num 11, Num 21])),
      (''Net Generation'', (Number, [Num 0, Num 5])),
      (''Wholesale Power Purchases'', (Number, [Num 100, Num 200])),
      (''Total Sources'', (Number, [Num 100, Num 205])),
      (''Retail Sales'', (Number, [Num 90, Num 190])),
      (''Sales for Resale'', (Number, [Num 0, Num 0])),
      (''Furnished without Charge'', (Number, [Num 0, Num 1])),
      (''Consumed by Respondent without Charge'', (Number, [Num 1, Num 2])),
      (''Total Energy Losses'', (Number, [Num 9, Num 12])),
      (''Total Disposition'', (Number, [Num 100, Num 205])),
      (''From Retail Sales'', (Number, [Num 1000, Num 2000])),
      (''From Delivery Customers'', (Number, [Num 1, Num 2])),
      (''From Sales for Resale'', (Number, [Num 3, Num 4])),
      (''From Credits or Adjustments'', (Number, [Num 5, Num 6])),
      (''From Transmission'', (Number, [Num 7, Num 8])),
      (''From Other'', (Number, [Num 9, Num 10])),
      (''Total'', (Number, [Num 1025, Num 2030]))]"







section \<open>Facts about the header locator\<close>

text \<open>
  \<open>lower_chr\<close> on the bits of a character: the letters it changes are those with bit 6
  set and bit 5 clear, and it sets bit 5. Evaluation of examples uses this form.
\<close>

lemma lower_chr_all:
  "\<forall>b0 b1 b2 b3 b4 b5 b6 b7. lower_chr (Char b0 b1 b2 b3 b4 b5 b6 b7) =
     (if b6 \<and> \<not> b5 \<and>
         (if b7 then \<not> (b0 \<and> b1 \<and> b2 \<and> b4)
          else (b0 \<or> b1 \<or> b2 \<or> b3 \<or> b4) \<and> \<not> (b3 \<and> b4 \<and> (b2 \<or> b0 \<and> b1)))
      then Char b0 b1 b2 b3 b4 True b6 b7
      else Char b0 b1 b2 b3 b4 b5 b6 b7)"
  by code_simp

lemma lower_chr_bits [code]:
  "lower_chr (Char b0 b1 b2 b3 b4 b5 b6 b7) =
     (if b6 \<and> \<not> b5 \<and>
         (if b7 then \<not> (b0 \<and> b1 \<and> b2 \<and> b4)
          else (b0 \<or> b1 \<or> b2 \<or> b3 \<or> b4) \<and> \<not> (b3 \<and> b4 \<and> (b2 \<or> b0 \<and> b1)))
      then Char b0 b1 b2 b3 b4 True b6 b7
      else Char b0 b1 b2 b3 b4 b5 b6 b7)"
  using lower_chr_all by blast

lemma starts_with_prefix: "starts_with s t = prefix s t"
  by (induction s t rule: starts_with.induct) auto

lemma contains_sublist: "contains m t = sublist m t"
  by (induction t) (auto simp: sublist_Cons_right starts_with_prefix)

lemma row_score_filter:
  "row_score ms row_values = length (filter (\<lambda>m. list_ex (contains m) row_values) ms)"
  by (induction ms) auto

lemma scan_rows_None:
  "scan_rows ms rows i = None \<longleftrightarrow> (\<forall>r \<in> set rows. \<not> threshold ms \<le> row_score ms r)"
  by (induction rows arbitrary: i) auto

lemma scan_rows_Some:
  "scan_rows ms rows i = Some r \<Longrightarrow>
     i \<le> r \<and> r - i < length rows \<and> threshold ms \<le> row_score ms (rows ! (r - i)) \<and>
     (\<forall>j < r - i. \<not> threshold ms \<le> row_score ms (rows ! j))"
proof (induction rows arbitrary: i)
  case Nil
  then show ?case by simp
next
  case (Cons row rest)
  show ?case
  proof (cases "threshold ms \<le> row_score ms row")
    case True
    with Cons.prems show ?thesis by simp
  next
    case False
    with Cons.prems have rec: "scan_rows ms rest (Suc i) = Some r" by simp
    from Cons.IH [OF rec] have le: "Suc i \<le> r" and len: "r - Suc i < length rest"
      and hit: "threshold ms \<le> row_score ms (rest ! (r - Suc i))"
      and before: "\<forall>j < r - Suc i. \<not> threshold ms \<le> row_score ms (rest ! j)"
      by simp_all
    from le have step: "r - i = Suc (r - Suc i)" by arith
    have "\<not> threshold ms \<le> row_score ms ((row # rest) ! j)" if "j < r - i" for j
    proof (cases j)
      case 0
      with False show ?thesis by simp
    next
      case (Suc k)
      with that step have "k < r - Suc i" by arith
      with before Suc show ?thesis by simp
    qed
    with le len hit step show ?thesis by simp
  qed
qed

text \<open>
  Claim C2. For every sheet and schedule name, the score of a row is the number of
  markers of the schedule that occur, letter case ignored, inside at least one cell of
  the row. If some row reaches \<open>max 2 (number of markers div 2)\<close> (the source divides with
  \<^verbatim>\<open>//\<close>), \<^verbatim>\<open>detect_header_row\<close> returns a row of the sheet that reaches it, and no row
  above that one does: the lowest qualifying row, whatever follows it.
\<close>

theorem detect_header_row_lowest:
  fixes num_str :: "'n \<Rightarrow> string" and raw :: "'n cell list list" and schedule :: string
  defines "ms \<equiv> map lower (markers_of schedule)"
  defines "cells \<equiv> \<lambda>row. map (\<lambda>x. lower (cell_str num_str x)) row"
  shows "(\<forall>row. row_score ms (cells row) =
            length (filter (\<lambda>m. \<exists>x \<in> set row. sublist (lower m) (lower (cell_str num_str x)))
              (markers_of schedule))) \<and>
         threshold ms = max 2 (length (markers_of schedule) div 2) \<and>
         ((\<exists>i < length raw. threshold ms \<le> row_score ms (cells (raw ! i))) \<longrightarrow>
            detect_header_row num_str raw schedule < length raw \<and>
            threshold ms \<le> row_score ms (cells (raw ! detect_header_row num_str raw schedule)) \<and>
            (\<forall>j < detect_header_row num_str raw schedule.
               \<not> threshold ms \<le> row_score ms (cells (raw ! j))))"
proof (intro conjI)
  show "\<forall>row. row_score ms (cells row) =
     length (filter (\<lambda>m. \<exists>x \<in> set row. sublist (lower m) (lower (cell_str num_str x)))
       (markers_of schedule))"
    by (simp add: ms_def cells_def row_score_filter filter_map comp_def list_ex_iff
        contains_sublist)
next
  show "threshold ms = max 2 (length (markers_of schedule) div 2)"
    by (simp add: threshold_def ms_def)
next
  let ?rows = "lower_rows num_str raw"
  let ?r = "detect_header_row num_str raw schedule"
  have nth: "?rows ! j = cells (raw ! j)" if "j < length raw" for j
    using that by (simp add: lower_rows_def cells_def)
  have length_rows: "length ?rows = length raw"
    by (simp add: lower_rows_def)
  show "(\<exists>i < length raw. threshold ms \<le> row_score ms (cells (raw ! i))) \<longrightarrow>
          ?r < length raw \<and> threshold ms \<le> row_score ms (cells (raw ! ?r)) \<and>
          (\<forall>j < ?r. \<not> threshold ms \<le> row_score ms (cells (raw ! j)))"
  proof
    assume "\<exists>i < length raw. threshold ms \<le> row_score ms (cells (raw ! i))"
    then obtain i where i: "i < length raw" "threshold ms \<le> row_score ms (?rows ! i)"
      using nth by auto
    then have "?rows ! i \<in> set ?rows"
      by (simp add: length_rows)
    with i have "scan_rows ms ?rows 0 \<noteq> None"
      unfolding scan_rows_None by blast
    then obtain r where r: "scan_rows ms ?rows 0 = Some r"
      by auto
    then have d: "?r = r"
      by (simp add: detect_header_row_def header_scan_def ms_def)
    from scan_rows_Some [OF r] have len: "r < length raw"
      and hit: "threshold ms \<le> row_score ms (?rows ! r)"
      and before: "\<forall>j<r. \<not> threshold ms \<le> row_score ms (?rows ! j)"
      unfolding length_rows by simp_all
    from len hit before show "?r < length raw \<and> threshold ms \<le> row_score ms (cells (raw ! ?r)) \<and>
          (\<forall>j < ?r. \<not> threshold ms \<le> row_score ms (cells (raw ! j)))"
      by (simp add: d nth)
  qed
qed

theorem detect_header_row_lowest_witness:
  "(\<exists>i < length utility_sheet.
      threshold (map lower (markers_of ''utility''))
        \<le> row_score (map lower (markers_of ''utility''))
            (map (\<lambda>x. lower (cell_str str_int x)) (utility_sheet ! i))) \<and>
   detect_header_row str_int utility_sheet ''utility'' = 1 \<and>
   \<not> threshold (map lower (markers_of ''utility''))
        \<le> row_score (map lower (markers_of ''utility''))
            (map (\<lambda>x. lower (cell_str str_int x)) (utility_sheet ! 0))"
proof -
  have hyp: "\<exists>i < length utility_sheet.
      threshold (map lower (markers_of ''utility''))
        \<le> row_score (map lower (markers_of ''utility''))
            (map (\<lambda>x. lower (cell_str str_int x)) (utility_sheet ! i))"
    by (rule exI [of _ 1]) code_simp
  have val: "detect_header_row str_int utility_sheet ''utility'' = 1"
    by code_simp
  from hyp detect_header_row_lowest
    [where num_str = str_int and raw = utility_sheet and schedule = "''utility''"]
  have "\<forall>j < detect_header_row str_int utility_sheet ''utility''.
      \<not> threshold (map lower (markers_of ''utility''))
        \<le> row_score (map lower (markers_of ''utility''))
            (map (\<lambda>x. lower (cell_str str_int x)) (utility_sheet ! j))"
    by blast
  with hyp val show ?thesis by simp
qed

section \<open>Facts about the resolver\<close>

lemma and_then_Inr_iff: "and_then m f = Inr y \<longleftrightarrow> (\<exists>x. m = Inr x \<and> f x = Inr y)"
  by (cases m) auto

lemma and_then_Inl_iff:
  "and_then m f = Inl e \<longleftrightarrow> m = Inl e \<or> (\<exists>x. m = Inr x \<and> f x = Inl e)"
  by (cases m) auto

lemma first_match_None:
  "first_match inc exc cols = None \<longleftrightarrow> (\<forall>c \<in> set cols. \<not> col_matches inc exc c)"
  by (induction cols) auto

lemma first_match_Some:
  "first_match inc exc cols = Some c \<Longrightarrow> c \<in> set cols \<and> col_matches inc exc c"
  by (induction cols) (auto split: if_splits)

lemma first_match_append:
  "first_match inc exc (xs @ ys) =
     (case first_match inc exc xs of Some c \<Rightarrow> Some c | None \<Rightarrow> first_match inc exc ys)"
  by (induction xs) auto

lemma find_col_optional:
  "find_col df inc exc False l = Inr (first_match inc exc (df_columns df))"
  by (simp add: find_col_def split: option.splits)

lemma find_col_required:
  "find_col df inc exc True l =
     (case first_match inc exc (df_columns df) of
        Some c \<Rightarrow> Inr (Some c)
      | None \<Rightarrow> Inl (no_column_error (df_columns df) inc exc l))"
  by (simp add: find_col_def)

lemma getitem_column:
  assumes "c \<in> set (df_columns df)"
  shows "\<exists>x. getitem df (Some c) = Inr x \<and> map_of df c = Some x"
proof -
  from assms have "map_of df c \<noteq> None"
    by (simp add: df_columns_def map_of_eq_None_iff)
  then show ?thesis by (auto simp: getitem_def)
qed

lemma df_columns_setitem:
  "df_columns (setitem df c x) =
     (if c \<in> set (df_columns df) then df_columns df else df_columns df @ [c])"
  by (induction df) (auto simp: df_columns_def rev_image_eqI)

lemma map_of_setitem: "map_of (setitem df c x) = (map_of df)(c \<mapsto> x)"
  by (induction df) (auto simp: fun_eq_iff)

lemma first_found_result:
  "\<exists>r. first_found df specs = Inr r \<and>
       (case r of None \<Rightarrow> True | Some c \<Rightarrow> c \<in> set (df_columns df))"
proof (induction specs)
  case Nil
  then show ?case by simp
next
  case (Cons spec specs)
  obtain inc exc l where spec: "spec = (inc, exc, l)" by (cases spec)
  show ?case
  proof (cases "first_match inc exc (df_columns df)")
    case None
    with Cons spec show ?thesis by (simp add: find_col_optional)
  next
    case (Some c)
    with spec first_match_Some [OF Some] show ?thesis by (simp add: find_col_optional)
  qed
qed

lemma first_candidate_None:
  "first_candidate m keys = None \<longleftrightarrow> (\<forall>k \<in> set keys. m k = None)"
  by (induction keys) (auto split: option.splits)

lemma first_candidate_at:
  "i < length keys \<Longrightarrow> m (keys ! i) = Some c \<Longrightarrow> \<forall>j < i. m (keys ! j) = None \<Longrightarrow>
     first_candidate m keys = Some c"
proof (induction keys arbitrary: i)
  case Nil
  then show ?case by simp
next
  case (Cons k keys)
  show ?case
  proof (cases i)
    case 0
    with Cons.prems show ?thesis by simp
  next
    case (Suc n)
    with Cons.prems have "m k = None" by auto
    moreover from Suc Cons.prems have "first_candidate m keys = Some c"
      by (intro Cons.IH [of n]) auto
    ultimately show ?thesis by simp
  qed
qed

lemma first_candidate_Some:
  "first_candidate m keys = Some c \<Longrightarrow> \<exists>k \<in> set keys. m k = Some c"
  by (induction keys) (auto split: option.splits)

lemma lower_map_Some:
  "lower_map cols k = Some c \<Longrightarrow> c \<in> set cols \<and> lower c = k"
  unfolding lower_map_def by (auto dest!: map_of_SomeD)

lemma lower_map_None:
  "lower_map cols k = None \<longleftrightarrow> k \<notin> lower ` set cols"
  unfolding lower_map_def by (force simp: map_of_eq_None_iff)

text \<open>
  Claim C8, as amended. For every table with at least one column the join key
  resolution returns a column of the table and raises nothing. The names of
  \<open>candidates\<close> are tried first, in their order, against the lowercased column names;
  then the first column with both \<^verbatim>\<open>utility\<close> and \<^verbatim>\<open>number\<close> in its name; then the first
  with \<^verbatim>\<open>respondent\<close> and \<^verbatim>\<open>id\<close>; all of these without a warning. Failing those, the
  first column with \<^verbatim>\<open>utility\<close> and \<^verbatim>\<open>name\<close> is returned with a warning, and failing
  that the first column of the table, with a warning.
\<close>

theorem get_utility_id_col_cascade:
  fixes df :: "'n dataframe"
  assumes nonempty: "df \<noteq> []"
  defines "cols \<equiv> df_columns df"
  defines "exact \<equiv> first_candidate (lower_map cols) candidates"
  defines "number_like \<equiv> first_match [''utility'', ''number''] [] cols"
  defines "respondent_like \<equiv> first_match [''respondent'', ''id''] [] cols"
  defines "name_like \<equiv> first_match [''utility'', ''name''] [] cols"
  shows "\<exists>col warnings.
           get_utility_id_col df = Inr (col, warnings) \<and> col \<in> set cols \<and>
           (\<forall>i c. i < length candidates \<and> lower_map cols (candidates ! i) = Some c \<and>
                  (\<forall>j < i. lower_map cols (candidates ! j) = None) \<longrightarrow>
                  col = c \<and> lower c = candidates ! i \<and> warnings = []) \<and>
           (\<forall>c. exact = None \<and> number_like = Some c \<longrightarrow> col = c \<and> warnings = []) \<and>
           (\<forall>c. exact = None \<and> number_like = None \<and> respondent_like = Some c \<longrightarrow>
                  col = c \<and> warnings = []) \<and>
           (\<forall>c. exact = None \<and> number_like = None \<and> respondent_like = None \<and>
                  name_like = Some c \<longrightarrow>
                  col = c \<and> warnings = name_warning \<and> warnings \<noteq> []) \<and>
           (exact = None \<and> number_like = None \<and> respondent_like = None \<and> name_like = None \<longrightarrow>
                  col = hd cols \<and> warnings = first_column_warning cols \<and> warnings \<noteq> [])"
proof -
  from nonempty have cols: "cols \<noteq> []"
    by (simp add: cols_def df_columns_def)
  have at: "exact = Some c" if "i < length candidates" "lower_map cols (candidates ! i) = Some c"
    "\<forall>j < i. lower_map cols (candidates ! j) = None" for i c
    unfolding exact_def using that by (rule first_candidate_at)
  have low: "lower c = candidates ! i" if "lower_map cols (candidates ! i) = Some c" for i c
    using lower_map_Some [OF that] by simp
  show ?thesis
  proof (cases exact)
    case (Some c)
    then have "get_utility_id_col df = Inr (c, [])"
      by (simp add: get_utility_id_col_def exact_def cols_def)
    moreover from Some have "c \<in> set cols"
      unfolding exact_def by (auto dest!: first_candidate_Some lower_map_Some)
    ultimately show ?thesis using Some at low by auto
  next
    case None
    then have no_at: "\<not> (i < length candidates \<and> lower_map cols (candidates ! i) = Some c)" for i c
      unfolding exact_def first_candidate_None by auto
    show ?thesis
    proof (cases number_like)
      case (Some c)
      with None have "get_utility_id_col df = Inr (c, [])"
        by (simp add: get_utility_id_col_def exact_def number_like_def cols_def)
      moreover from Some have "c \<in> set cols"
        unfolding number_like_def by (auto dest: first_match_Some)
      ultimately show ?thesis using None Some no_at by auto
    next
      case number_None: None
      show ?thesis
      proof (cases respondent_like)
        case (Some c)
        with None number_None have "get_utility_id_col df = Inr (c, [])"
          by (simp add: get_utility_id_col_def exact_def number_like_def respondent_like_def
              cols_def)
        moreover from Some have "c \<in> set cols"
          unfolding respondent_like_def by (auto dest: first_match_Some)
        ultimately show ?thesis using None number_None Some no_at by auto
      next
        case respondent_None: None
        show ?thesis
        proof (cases name_like)
          case (Some c)
          with None number_None respondent_None
          have "get_utility_id_col df = Inr (c, name_warning)"
            by (simp add: get_utility_id_col_def exact_def number_like_def respondent_like_def
                name_like_def cols_def)
          moreover from Some have "c \<in> set cols"
            unfolding name_like_def by (auto dest: first_match_Some)
          moreover have "name_warning \<noteq> []"
            by (simp add: name_warning_def)
          ultimately show ?thesis using None number_None respondent_None Some no_at by auto
        next
          case name_None: None
          from cols obtain c rest where c: "cols = c # rest"
            by (cases cols) auto
          with None number_None respondent_None name_None
          have "get_utility_id_col df = Inr (c, first_column_warning cols)"
            by (simp add: get_utility_id_col_def exact_def number_like_def respondent_like_def
                name_like_def cols_def)
          moreover have "first_column_warning cols \<noteq> []"
            by (simp add: first_column_warning_def)
          ultimately show ?thesis
            using None number_None respondent_None name_None no_at c by auto
        qed
      qed
    qed
  qed
qed

theorem get_utility_id_col_cascade_witness:
  "named_only \<noteq> [] \<and>
   get_utility_id_col named_only = Inr (''Utility Name'', name_warning)"
proof -
  have nonempty: "named_only \<noteq> []"
    by (simp add: named_only_def)
  have exact: "first_candidate (lower_map (df_columns named_only)) candidates = None"
    by code_simp
  have number: "first_match [''utility'', ''number''] [] (df_columns named_only) = None"
    by code_simp
  have respondent: "first_match [''respondent'', ''id''] [] (df_columns named_only) = None"
    by code_simp
  have name: "first_match [''utility'', ''name''] [] (df_columns named_only) = Some ''Utility Name''"
    by code_simp
  from get_utility_id_col_cascade [OF nonempty] exact number respondent name nonempty
  show ?thesis by auto
qed
text \<open>
  On a table without columns (an empty sheet) there is no first column:
  \<^verbatim>\<open>df.columns[0]\<close> raises \<^verbatim>\<open>IndexError\<close>, so the resolution does abort there.
\<close>

theorem get_utility_id_col_no_columns:
  "get_utility_id_col ([] :: int dataframe) = Inl IndexError"
  by (simp add: get_utility_id_col_def df_columns_def lower_map_def candidates_def)

section \<open>Facts about the loaders\<close>

lemma exec_optional:
  "\<exists>df' x. exec (Optional field specs dummy) (df, out) = Inr (df', setitem out field x) \<and>
     (df_columns df' = df_columns df \<or> df_columns df' = df_columns df @ [dummy])"
proof -
  from first_found_result [of df specs] obtain r where r: "first_found df specs = Inr r"
    and c: "case r of None \<Rightarrow> True | Some c \<Rightarrow> c \<in> set (df_columns df)" by blast
  show ?thesis
  proof (cases r)
    case None
    have "dummy \<in> set (df_columns (set_na df dummy))"
      by (simp add: set_na_def df_columns_setitem)
    from getitem_column [OF this] obtain x where "getitem (set_na df dummy) (Some dummy) = Inr x"
      by blast
    with r None have "exec (Optional field specs dummy) (df, out) =
        Inr (set_na df dummy, setitem out field x)"
      by (simp add: or_dummy_def)
    moreover have "df_columns (set_na df dummy) = df_columns df \<or>
        df_columns (set_na df dummy) = df_columns df @ [dummy]"
      by (simp add: set_na_def df_columns_setitem)
    ultimately show ?thesis by blast
  next
    case (Some col)
    with c getitem_column [of col df] obtain x where "getitem df (Some col) = Inr x" by auto
    with r Some have "exec (Optional field specs dummy) (df, out) = Inr (df, setitem out field x)"
      by (simp add: or_dummy_def)
    then show ?thesis by blast
  qed
qed

lemma exec_required_None:
  assumes "first_match inc [] (df_columns df) = None"
  shows "exec (Required field inc l) (df, out) = Inl (no_column_error (df_columns df) inc [] l)"
  using assms by (simp add: find_col_required)

lemma exec_required_Some:
  assumes "first_match inc [] (df_columns df) = Some c"
  shows "\<exists>x. map_of df c = Some x \<and>
     exec (Required field inc l) (df, out) = Inr (df, setitem out field x)"
proof -
  from first_match_Some [OF assms] have "c \<in> set (df_columns df)" by simp
  from getitem_column [OF this] obtain x where "map_of df c = Some x" by blast
  with assms show ?thesis by (simp add: find_col_required getitem_def)
qed

lemma first_match_dummies:
  assumes "\<forall>d \<in> set ds. \<not> col_matches inc exc d"
  shows "first_match inc exc (cols @ ds) = first_match inc exc cols"
proof -
  from assms have "first_match inc exc ds = None"
    by (simp add: first_match_None)
  then show ?thesis
    by (simp add: first_match_append split: option.splits)
qed

text \<open>The first unmatched required statement decides the outcome.\<close>

lemma exec_all_first_missing:
  assumes "df_columns df' = cols @ ds"
    and "\<forall>f inc l. Required f inc l \<in> set cs \<longrightarrow>
           (\<forall>d. d \<in> set ds \<or> (\<exists>f' sp. Optional f' sp d \<in> set cs) \<longrightarrow> \<not> col_matches inc [] d)"
    and "\<exists>f inc l. Required f inc l \<in> set cs \<and> first_match inc [] cols = None"
  shows "\<exists>i f inc l ds'. i < length cs \<and> cs ! i = Required f inc l \<and>
           first_match inc [] cols = None \<and>
           (\<forall>j < i. \<forall>f' inc' l'. cs ! j = Required f' inc' l' \<longrightarrow>
              first_match inc' [] cols \<noteq> None) \<and>
           set ds' \<subseteq> set ds \<union> {d. \<exists>f' sp. Optional f' sp d \<in> set cs} \<and>
           exec_all cs (df', out) = Inl (no_column_error (cols @ ds') inc [] l)"
  using assms
proof (induction cs arbitrary: df' ds out)
  case Nil
  then show ?case by simp
next
  case (Cons c cs)
  have shift: "\<exists>i f inc l ds'. i < length (c # cs) \<and> (c # cs) ! i = Required f inc l \<and>
           first_match inc [] cols = None \<and>
           (\<forall>j < i. \<forall>f' inc' l'. (c # cs) ! j = Required f' inc' l' \<longrightarrow>
              first_match inc' [] cols \<noteq> None) \<and>
           set ds' \<subseteq> set ds \<union> {d. \<exists>f' sp. Optional f' sp d \<in> set (c # cs)} \<and>
           exec_all (c # cs) (df', out) = Inl (no_column_error (cols @ ds') inc [] l)"
    if step: "exec c (df', out) = Inr (df'', out')"
      and here: "\<And>f inc l. c = Required f inc l \<Longrightarrow> first_match inc [] cols \<noteq> None"
      and i: "i < length cs" "cs ! i = Required g inc l" "first_match inc [] cols = None"
        "\<forall>j < i. \<forall>f' inc' l'. cs ! j = Required f' inc' l' \<longrightarrow> first_match inc' [] cols \<noteq> None"
        "set ds1 \<subseteq> set ds \<union> {d. \<exists>f' sp. Optional f' sp d \<in> set (c # cs)}"
        "exec_all cs (df'', out') = Inl (no_column_error (cols @ ds1) inc [] l)"
    for df'' out' i g inc l ds1
  proof -
    have "\<forall>f' inc' l'. (c # cs) ! j = Required f' inc' l' \<longrightarrow> first_match inc' [] cols \<noteq> None"
      if "j < Suc i" for j
      using that here i(4) by (cases j) auto
    with i step show ?thesis
      by (intro exI [of _ "Suc i"] exI [of _ g] exI [of _ inc] exI [of _ l] exI [of _ ds1]) simp
  qed
  show ?case
  proof (cases c)
    case (Required f inc l)
    with Cons.prems(2) have harmless: "\<forall>d \<in> set ds. \<not> col_matches inc [] d"
      by auto
    show ?thesis
    proof (cases "first_match inc [] cols")
      case None
      with harmless Cons.prems(1) have "first_match inc [] (df_columns df') = None"
        by (simp add: first_match_dummies)
      from exec_required_None [OF this] Cons.prems(1)
      have "exec_all (c # cs) (df', out) = Inl (no_column_error (cols @ ds) inc [] l)"
        by (simp add: Required del: exec.simps)
      with None Required show ?thesis
            by (intro exI [of _ 0] exI [of _ f] exI [of _ inc] exI [of _ l] exI [of _ ds]) simp
    next
      case (Some col)
      with harmless Cons.prems(1) have "first_match inc [] (df_columns df') = Some col"
        by (simp add: first_match_dummies)
      from exec_required_Some [OF this] obtain x
        where step: "exec c (df', out) = Inr (df', setitem out f x)"
        unfolding Required by blast
      from Cons.prems(3) Some Required
      have miss: "\<exists>f inc l. Required f inc l \<in> set cs \<and> first_match inc [] cols = None"
        by auto
      from Cons.prems(2) have "\<forall>f inc l. Required f inc l \<in> set cs \<longrightarrow>
           (\<forall>d. d \<in> set ds \<or> (\<exists>f' sp. Optional f' sp d \<in> set cs) \<longrightarrow> \<not> col_matches inc [] d)"
        by (meson list.set_intros(2))
      from Cons.IH [OF Cons.prems(1) this miss, of "setitem out f x"]
      obtain i g inc' l' ds' where i: "i < length cs" "cs ! i = Required g inc' l'"
        "first_match inc' [] cols = None"
        "\<forall>j < i. \<forall>f' inc' l'. cs ! j = Required f' inc' l' \<longrightarrow> first_match inc' [] cols \<noteq> None"
        "set ds' \<subseteq> set ds \<union> {d. \<exists>f' sp. Optional f' sp d \<in> set cs}"
        "exec_all cs (df', setitem out f x) = Inl (no_column_error (cols @ ds') inc' [] l')"
        by blast
      have "{d. \<exists>f' sp. Optional f' sp d \<in> set cs}
          \<subseteq> {d. \<exists>f' sp. Optional f' sp d \<in> set (c # cs)}"
        by auto
      with i(5) have sub: "set ds' \<subseteq> set ds \<union> {d. \<exists>f' sp. Optional f' sp d \<in> set (c # cs)}"
        by blast
      have here: "first_match inc0 [] cols \<noteq> None" if "c = Required f0 inc0 l0" for f0 inc0 l0
        using that Some Required by simp
      show ?thesis
        by (rule shift [OF step here i(1-4) sub i(6)])
    qed
  next
    case (Optional f sp d)
    from exec_optional [of f sp d df' out] obtain df'' x
      where step: "exec c (df', out) = Inr (df'', setitem out f x)"
        and cols'': "df_columns df'' = df_columns df' \<or> df_columns df'' = df_columns df' @ [d]"
      unfolding Optional by blast
    from Cons.prems(3) Optional
    have miss: "\<exists>f inc l. Required f inc l \<in> set cs \<and> first_match inc [] cols = None"
      by auto
    from cols'' Cons.prems(1) obtain ds'' where ds'': "df_columns df'' = cols @ ds''"
      "set ds'' \<subseteq> insert d (set ds)"
      by auto
    have "\<not> col_matches inc' [] d'"
      if req: "Required f' inc' l' \<in> set cs"
        and d': "d' \<in> set ds'' \<or> (\<exists>g sp'. Optional g sp' d' \<in> set cs)"
      for f' inc' l' d'
    proof -
      from req have r: "Required f' inc' l' \<in> set (c # cs)"
        by simp
      from d' ds''(2) Optional
      have "d' \<in> set ds \<or> (\<exists>g sp'. Optional g sp' d' \<in> set (c # cs))"
        by auto
      with Cons.prems(2) r show ?thesis
        by blast
    qed
    then have "\<forall>f inc l. Required f inc l \<in> set cs \<longrightarrow>
           (\<forall>d. d \<in> set ds'' \<or> (\<exists>f' sp. Optional f' sp d \<in> set cs) \<longrightarrow> \<not> col_matches inc [] d)"
      by blast
    from Cons.IH [OF ds''(1) this miss, of "setitem out f x"]
    obtain i g inc l ds' where i: "i < length cs" "cs ! i = Required g inc l"
      "first_match inc [] cols = None"
      "\<forall>j < i. \<forall>f' inc' l'. cs ! j = Required f' inc' l' \<longrightarrow> first_match inc' [] cols \<noteq> None"
      "set ds' \<subseteq> set ds'' \<union> {d. \<exists>f' sp. Optional f' sp d \<in> set cs}"
      "exec_all cs (df'', setitem out f x) = Inl (no_column_error (cols @ ds') inc [] l)"
      by blast
    have "{d. \<exists>f' sp. Optional f' sp d \<in> set cs}
        \<subseteq> {d. \<exists>f' sp. Optional f' sp d \<in> set (c # cs)}"
      by auto
    moreover have "d \<in> {d. \<exists>f' sp. Optional f' sp d \<in> set (c # cs)}"
      using Optional by auto
    ultimately
    have sub: "set ds' \<subseteq> set ds \<union> {d. \<exists>f' sp. Optional f' sp d \<in> set (c # cs)}"
      using i(5) ds''(2) by blast
    have here: "first_match inc0 [] cols \<noteq> None" if "c = Required f0 inc0 l0" for f0 inc0 l0
      using that Optional by simp
    show ?thesis
      by (rule shift [OF step here i(1-4) sub i(6)])
  qed
qed

lemma exec_all_Inr:
  assumes "exec_all cs (df', out) = Inr (df'', out'')"
    and "df_columns df' = df_columns df @ ds" and "set ds \<subseteq> D"
    and "\<forall>c. c \<notin> D \<longrightarrow> map_of df' c = map_of df c"
    and "\<forall>f sp d. Optional f sp d \<in> set cs \<longrightarrow> d \<in> D"
    and "\<forall>f inc l. Required f inc l \<in> set cs \<longrightarrow> (\<forall>d \<in> D. \<not> col_matches inc [] d)"
    and "distinct (map target cs)"
  shows "(\<exists>ds''. df_columns df'' = df_columns df @ ds'' \<and> set ds'' \<subseteq> D) \<and>
         (\<forall>c. c \<notin> D \<longrightarrow> map_of df'' c = map_of df c) \<and>
         (\<forall>f inc l. Required f inc l \<in> set cs \<longrightarrow>
            (\<exists>c x. first_match inc [] (df_columns df) = Some c \<and> map_of df c = Some x \<and>
                   map_of out'' f = Some x)) \<and>
         (\<forall>f. f \<notin> target ` set cs \<longrightarrow> map_of out'' f = map_of out f)"
  using assms
proof (induction cs arbitrary: df' ds out)
  case Nil
  then show ?case by auto
next
  case (Cons c cs)
  from Cons.prems(1) obtain df1 out1 where step: "exec c (df', out) = Inr (df1, out1)"
    and rest: "exec_all cs (df1, out1) = Inr (df'', out'')"
    by (auto simp: and_then_Inr_iff simp del: exec.simps)
  from Cons.prems(7) have fresh: "target c \<notin> target ` set cs" and dist: "distinct (map target cs)"
    by auto
  from Cons.prems(5) have dummies: "\<forall>f sp d. Optional f sp d \<in> set cs \<longrightarrow> d \<in> D"
    by auto
  from Cons.prems(6)
  have harmless: "\<forall>f inc l. Required f inc l \<in> set cs \<longrightarrow> (\<forall>d \<in> D. \<not> col_matches inc [] d)"
    by auto
  show ?case
  proof (cases c)
    case (Required f inc l)
    with Cons.prems(6) have no_dummy: "\<forall>d \<in> D. \<not> col_matches inc [] d"
      by auto
    with Cons.prems(3) have "\<forall>d \<in> set ds. \<not> col_matches inc [] d"
      by auto
    then have same: "first_match inc [] (df_columns df') = first_match inc [] (df_columns df)"
      unfolding Cons.prems(2) by (rule first_match_dummies)
    from step Required obtain col where col: "first_match inc [] (df_columns df') = Some col"
      by (cases "first_match inc [] (df_columns df')") (auto simp: find_col_required)
    from exec_required_Some [OF col, of f l out] step Required obtain x
      where x: "map_of df' col = Some x" and df1: "df1 = df'" and out1: "out1 = setitem out f x"
      by auto
    from first_match_Some [OF col] no_dummy have "col \<notin> D"
      by auto
    with Cons.prems(4) x have x_df: "map_of df col = Some x"
      by auto
    from Cons.IH [OF rest [unfolded df1] Cons.prems(2) Cons.prems(3) Cons.prems(4) dummies
        harmless dist]
    have ih1: "\<exists>ds''. df_columns df'' = df_columns df @ ds'' \<and> set ds'' \<subseteq> D"
      and ih2: "\<forall>c. c \<notin> D \<longrightarrow> map_of df'' c = map_of df c"
      and ih3: "\<forall>f inc l. Required f inc l \<in> set cs \<longrightarrow>
            (\<exists>c x. first_match inc [] (df_columns df) = Some c \<and> map_of df c = Some x \<and>
                   map_of out'' f = Some x)"
      and ih4: "\<forall>g. g \<notin> target ` set cs \<longrightarrow> map_of out'' g = map_of out1 g"
      by blast+
    from fresh Required ih4 out1 have here: "map_of out'' f = Some x"
      by (simp add: map_of_setitem)
    have "\<forall>g. g \<notin> target ` set (c # cs) \<longrightarrow> map_of out'' g = map_of out g"
      using ih4 out1 Required by (simp add: map_of_setitem)
    moreover have "\<forall>f' inc' l'. Required f' inc' l' \<in> set (c # cs) \<longrightarrow>
            (\<exists>c x. first_match inc' [] (df_columns df) = Some c \<and> map_of df c = Some x \<and>
                   map_of out'' f' = Some x)"
      using ih3 here x_df col same Required by auto
    ultimately show ?thesis using ih1 ih2 by blast
  next
    case (Optional f sp d)
    with Cons.prems(5) have d: "d \<in> D"
      by auto
    from first_found_result [of df' sp] obtain r where r: "first_found df' sp = Inr r"
      by blast
    from step Optional r obtain x where out1: "out1 = setitem out f x"
      and df1: "df1 = df' \<or> df1 = set_na df' d"
      by (auto simp: and_then_Inr_iff or_dummy_def split: if_splits)
    have "df_columns df1 = df_columns df @ ds \<or> df_columns df1 = df_columns df @ (ds @ [d])"
    proof (cases "df1 = df'")
      case True
      with Cons.prems(2) show ?thesis by simp
    next
      case False
      with df1 have "df_columns df1 =
          (if d \<in> set (df_columns df') then df_columns df' else df_columns df' @ [d])"
        by (simp add: set_na_def df_columns_setitem)
      then show ?thesis
        unfolding Cons.prems(2) by (simp split: if_splits)
    qed
    then obtain ds1 where ds1: "df_columns df1 = df_columns df @ ds1"
      "set ds1 \<subseteq> insert d (set ds)"
      by fastforce
    with d Cons.prems(3) have sub: "set ds1 \<subseteq> D"
      by auto
    from df1 d Cons.prems(4) have agree: "\<forall>c. c \<notin> D \<longrightarrow> map_of df1 c = map_of df c"
      by (auto simp: set_na_def map_of_setitem)
    from Cons.IH [OF rest ds1(1) sub agree dummies harmless dist]
    have ih1: "\<exists>ds''. df_columns df'' = df_columns df @ ds'' \<and> set ds'' \<subseteq> D"
      and ih2: "\<forall>c. c \<notin> D \<longrightarrow> map_of df'' c = map_of df c"
      and ih3: "\<forall>f inc l. Required f inc l \<in> set cs \<longrightarrow>
            (\<exists>c x. first_match inc [] (df_columns df) = Some c \<and> map_of df c = Some x \<and>
                   map_of out'' f = Some x)"
      and ih4: "\<forall>g. g \<notin> target ` set cs \<longrightarrow> map_of out'' g = map_of out1 g"
      by blast+
    have "\<forall>g. g \<notin> target ` set (c # cs) \<longrightarrow> map_of out'' g = map_of out g"
      using ih4 out1 Optional by (simp add: map_of_setitem)
    moreover have "\<forall>f' inc' l'. Required f' inc' l' \<in> set (c # cs) \<longrightarrow>
            (\<exists>c x. first_match inc' [] (df_columns df) = Some c \<and> map_of df c = Some x \<and>
                   map_of out'' f' = Some x)"
      using ih3 Optional by auto
    ultimately show ?thesis using ih1 ih2 by blast
  qed
qed

lemma get_utility_id_col_total:
  assumes "df \<noteq> []"
  shows "\<exists>col w. get_utility_id_col df = Inr (col, w) \<and> col \<in> set (df_columns df)"
proof -
  let ?cols = "df_columns df"
  from assms obtain c rest where cols: "?cols = c # rest"
    by (cases df) (auto simp: df_columns_def)
  have found: "c' \<in> set ?cols"
    if "first_candidate (lower_map ?cols) candidates = Some c' \<or>
        first_match [''utility'', ''number''] [] ?cols = Some c' \<or>
        first_match [''respondent'', ''id''] [] ?cols = Some c' \<or>
        first_match [''utility'', ''name''] [] ?cols = Some c'" for c'
    using that by (auto dest: first_match_Some first_candidate_Some lower_map_Some)
  have "c \<in> set ?cols"
    by (simp add: cols)
  with found cols show ?thesis
    unfolding get_utility_id_col_def Let_def
    by (simp split: option.splits list.splits)
qed

lemma get_utility_id_col_empty: "get_utility_id_col [] = Inl IndexError"
  by (simp add: get_utility_id_col_def df_columns_def lower_map_def candidates_def)

lemma operational_targets_distinct: "distinct (map target operational_statements)"
  by (simp add: operational_statements_def)

lemma operational_dummies_listed:
  "\<forall>f sp d. Optional f sp d \<in> set operational_statements \<longrightarrow> d \<in> set operational_dummies"
  by (auto simp: operational_statements_def operational_dummies_def)

lemma operational_dummies_checked:
  "list_all (\<lambda>c. case c of
       Required f inc l \<Rightarrow> list_all (\<lambda>d. \<not> col_matches inc [] d) operational_dummies
     | Optional f sp d \<Rightarrow> True) operational_statements"
  by code_simp

lemma operational_dummies_harmless:
  "\<forall>f inc l. Required f inc l \<in> set operational_statements \<longrightarrow>
     (\<forall>d \<in> set operational_dummies. \<not> col_matches inc [] d)"
  using operational_dummies_checked unfolding list_all_iff by fastforce

lemma load_operational_fields_exec:
  assumes "df \<noteq> []"
  shows "\<exists>x. load_operational_fields df =
     exec_all operational_statements (df, setitem [] ''Utility.Number'' x)"
proof -
  from get_utility_id_col_total [OF assms] obtain col w
    where col: "get_utility_id_col df = Inr (col, w)" "col \<in> set (df_columns df)"
    by blast
  from getitem_column [OF col(2)] obtain x where "getitem df (Some col) = Inr x"
    by blast
  with col(1) show ?thesis
    by (intro exI [of _ x]) (simp add: load_operational_fields_def)
qed

lemma load_operational_fields_empty: "load_operational_fields [] = Inl IndexError"
  by (simp add: load_operational_fields_def get_utility_id_col_empty)

lemma load_operational_fields_missing:
  assumes "df \<noteq> []"
    and "\<exists>f inc l. Required f inc l \<in> set operational_statements \<and>
           first_match inc [] (df_columns df) = None"
  shows "\<exists>i f inc l ds. i < length operational_statements \<and>
           operational_statements ! i = Required f inc l \<and>
           first_match inc [] (df_columns df) = None \<and>
           (\<forall>j < i. \<forall>f' inc' l'. operational_statements ! j = Required f' inc' l' \<longrightarrow>
              first_match inc' [] (df_columns df) \<noteq> None) \<and>
           set ds \<subseteq> set operational_dummies \<and>
           load_operational_fields df = Inl (no_column_error (df_columns df @ ds) inc [] l)"
proof -
  from load_operational_fields_exec [OF assms(1)] obtain x
    where x: "load_operational_fields df =
      exec_all operational_statements (df, setitem [] ''Utility.Number'' x)"
    by blast
  have "\<forall>f inc l. Required f inc l \<in> set operational_statements \<longrightarrow>
      (\<forall>d. d \<in> set [] \<or> (\<exists>f' sp. Optional f' sp d \<in> set operational_statements) \<longrightarrow>
         \<not> col_matches inc [] d)"
    using operational_dummies_harmless operational_dummies_listed by fastforce
  from exec_all_first_missing [OF _ this assms(2), of df "setitem [] ''Utility.Number'' x"]
  obtain i f inc l ds where i: "i < length operational_statements"
    "operational_statements ! i = Required f inc l"
    "first_match inc [] (df_columns df) = None"
    "\<forall>j < i. \<forall>f' inc' l'. operational_statements ! j = Required f' inc' l' \<longrightarrow>
        first_match inc' [] (df_columns df) \<noteq> None"
    "set ds \<subseteq> set [] \<union> {d. \<exists>f' sp. Optional f' sp d \<in> set operational_statements}"
    "exec_all operational_statements (df, setitem [] ''Utility.Number'' x) =
       Inl (no_column_error (df_columns df @ ds) inc [] l)"
    by auto
  from i(5) operational_dummies_listed have "set ds \<subseteq> set operational_dummies"
    by auto
  with i x show ?thesis
    by (intro exI [of _ i] exI [of _ f] exI [of _ inc] exI [of _ l] exI [of _ ds]) simp
qed

lemma load_operational_fields_Inr:
  assumes "load_operational_fields df = Inr (df', fields)"
  shows "(\<exists>ds. df_columns df' = df_columns df @ ds \<and> set ds \<subseteq> set operational_dummies) \<and>
         (\<forall>c. c \<notin> set operational_dummies \<longrightarrow> map_of df' c = map_of df c) \<and>
         (\<forall>f inc l. Required f inc l \<in> set operational_statements \<longrightarrow>
            (\<exists>c x. first_match inc [] (df_columns df) = Some c \<and> map_of df c = Some x \<and>
                   map_of fields f = Some x))"
proof -
  from assms have "df \<noteq> []"
    by (auto simp: load_operational_fields_empty)
  from load_operational_fields_exec [OF this] assms obtain x
    where x: "exec_all operational_statements (df, setitem [] ''Utility.Number'' x) =
      Inr (df', fields)"
    by auto
  from exec_all_Inr [OF x, of df "[]" "set operational_dummies"]
    operational_dummies_listed operational_dummies_harmless operational_targets_distinct
  show ?thesis by simp
qed

lemma type_dummy_harmless:
  "\<not> col_matches [''utility name''] [] ''__type_dummy__'' \<and>
   \<not> col_matches [''entity''] [] ''__type_dummy__'' \<and>
   \<not> col_matches [''state''] [] ''__type_dummy__''"
  by code_simp

text \<open>The utility loader once the join key is found: what the name and state lookups decide.\<close>

lemma load_utility_schedule_cases:
  fixes df :: "'n dataframe"
  assumes "df \<noteq> []"
  defines "cols \<equiv> df_columns df"
  defines "name \<equiv> (case first_match [''utility name''] [] cols of
                      Some c \<Rightarrow> Some c | None \<Rightarrow> first_match [''entity''] [] cols)"
  shows "name = None \<Longrightarrow>
           load_utility_schedule num_str df = Inl (no_column_error cols [''entity''] [] ''Utility Name'')"
    and "name \<noteq> None \<Longrightarrow> first_match [''state''] [] cols = None \<Longrightarrow>
           load_utility_schedule num_str df = Inl (no_column_error cols [''state''] [] ''State'')"
    and "name = Some c \<Longrightarrow> first_match [''state''] [] cols = Some c' \<Longrightarrow>
           \<exists>out x x'. load_utility_schedule num_str df = Inr out \<and>
             map_of df c = Some x \<and> map_of out ''Utility.Name'' = Some (astype_str num_str x) \<and>
             map_of df c' = Some x' \<and> map_of out ''Utility.State'' = Some x'"
proof -
  from get_utility_id_col_total [OF assms(1)] obtain col w
    where col: "get_utility_id_col df = Inr (col, w)" "col \<in> set (df_columns df)"
    by blast
  show "load_utility_schedule num_str df = Inl (no_column_error cols [''entity''] [] ''Utility Name'')"
    if "name = None"
    using that col(1) unfolding name_def cols_def load_utility_schedule_def
    by (simp add: find_col_optional find_col_required split: option.splits)
  show "load_utility_schedule num_str df = Inl (no_column_error cols [''state''] [] ''State'')"
    if "name \<noteq> None" "first_match [''state''] [] cols = None"
    using that col(1) unfolding name_def cols_def load_utility_schedule_def
    by (auto simp: find_col_optional find_col_required split: option.splits)
  show "\<exists>out x x'. load_utility_schedule num_str df = Inr out \<and>
             map_of df c = Some x \<and> map_of out ''Utility.Name'' = Some (astype_str num_str x) \<and>
             map_of df c' = Some x' \<and> map_of out ''Utility.State'' = Some x'"
    if name: "name = Some c" and state: "first_match [''state''] [] cols = Some c'"
  proof -
    from first_found_result [of df "[([''ownership''], [], []), ([''entity type''], [], []),
                  ([''ownership type''], [], [])]"]
    obtain r where r: "first_found df [([''ownership''], [], []), ([''entity type''], [], []),
                  ([''ownership type''], [], [])] = Inr r"
      and r_col: "case r of None \<Rightarrow> True | Some t \<Rightarrow> t \<in> set (df_columns df)"
      by blast
    obtain df' t where dummy: "or_dummy df r ''__type_dummy__'' = (df', Some t)"
      and t: "t \<in> set (df_columns df')"
      and df': "df' = df \<or> df' = set_na df ''__type_dummy__''"
      using r_col by (cases r) (auto simp: or_dummy_def set_na_def df_columns_setitem)
    from name have c: "c \<in> set cols" "col_matches [''utility name''] [] c \<or> col_matches [''entity''] [] c"
      unfolding name_def by (auto split: option.splits dest: first_match_Some)
    from first_match_Some [OF state] have c': "c' \<in> set cols" "col_matches [''state''] [] c'"
      by simp_all
    from c c' type_dummy_harmless have ne: "c \<noteq> ''__type_dummy__''" "c' \<noteq> ''__type_dummy__''"
      by auto
    from c(1) getitem_column [of c df] obtain x where x: "map_of df c = Some x"
      unfolding cols_def by blast
    from c'(1) getitem_column [of c' df] obtain x' where x': "map_of df c' = Some x'"
      unfolding cols_def by blast
    from df' ne x x' have same: "map_of df' c = Some x" "map_of df' c' = Some x'"
      by (auto simp: set_na_def map_of_setitem)
    from df' col(2) have "col \<in> set (df_columns df')"
      by (auto simp: set_na_def df_columns_setitem)
    from getitem_column [OF this] obtain k where k: "getitem df' (Some col) = Inr k"
      by blast
    from getitem_column [OF t] obtain ty where ty: "getitem df' (Some t) = Inr ty"
      by blast
    have name_col: "and_then (find_col df [''utility name''] [] False [])
        (\<lambda>name_col. and_then (if name_col = None then find_col df [''entity''] [] True ''Utility Name''
               else Inr name_col) f) = f (Some c)" for f :: "string option \<Rightarrow> error + 'n dataframe"
      using name unfolding name_def cols_def
      by (simp add: find_col_optional find_col_required split: option.splits)
    have "load_utility_schedule num_str df =
        Inr (setitem (setitem (setitem (setitem []
            ''Utility.Number'' k)
            ''Utility.Name'' (astype_str num_str x))
            ''Utility.State'' x')
            ''Utility.Type'' ty)"
      unfolding load_utility_schedule_def
      using col(1) state r dummy k ty same
      by (simp add: name_col find_col_required cols_def getitem_def)
    with x x' show ?thesis
      by simp
  qed
qed

lemma load_operational_schedule_Inr:
  assumes "load_operational_schedule df = Inr out"
  shows "\<exists>df' fields total.
           load_operational_fields df = Inr (df', fields) \<and>
           out = setitem fields ''Revenue.Total'' total \<and>
           (case first_match [''total''] [''sales'', ''customers'', ''mwh'', ''kwh''] (df_columns df') of
              Some c \<Rightarrow> map_of df' c = Some total
            | None \<Rightarrow> sum_parts fields = Inr total)"
proof -
  from assms obtain df' fields where fields: "load_operational_fields df = Inr (df', fields)"
    and rest: "and_then (find_col df' [''total''] [''sales'', ''customers'', ''mwh'', ''kwh''] False
                 ''Revenue.Total'') (\<lambda>rev_total_col.
     if rev_total_col \<noteq> None then
       and_then (getitem df' rev_total_col) (\<lambda>x. Inr (setitem fields ''Revenue.Total'' x))
     else
       and_then (sum_parts fields) (\<lambda>x. Inr (setitem fields ''Revenue.Total'' x))) = Inr out"
    unfolding load_operational_schedule_def by (auto simp: and_then_Inr_iff)
  show ?thesis
  proof (cases "first_match [''total''] [''sales'', ''customers'', ''mwh'', ''kwh''] (df_columns df')")
    case None
    with rest fields show ?thesis
      by (auto simp: find_col_optional and_then_Inr_iff)
  next
    case (Some c)
    with rest fields show ?thesis
      by (auto simp: find_col_optional and_then_Inr_iff getitem_def split: option.splits)
  qed
qed

lemma load_operational_schedule_Inl:
  assumes "load_operational_fields df = Inl e"
  shows "load_operational_schedule df = Inl e"
  using assms by (simp add: load_operational_schedule_def)

lemma revenue_total_not_required:
  "Required f inc l \<in> set operational_statements \<Longrightarrow> f \<noteq> ''Revenue.Total''"
  by (auto simp: operational_statements_def)

lemma cells_add_nth:
  "cells_add xs ys = Inr zs \<Longrightarrow> i < length xs \<Longrightarrow> i < length ys \<Longrightarrow>
     i < length zs \<and> cell_add (xs ! i) (ys ! i) = Inr (zs ! i)"
proof (induction xs ys arbitrary: zs i rule: cells_add.induct)
  case (1 x xs y ys)
  from "1.prems"(1) obtain z zs' where z: "cell_add x y = Inr z" and zs': "cells_add xs ys = Inr zs'"
    and zs: "zs = z # zs'"
    by (auto simp: and_then_Inr_iff)
  show ?case
  proof (cases i)
    case 0
    with z zs show ?thesis by simp
  next
    case (Suc n)
    with "1.prems" have "n < length xs" "n < length ys" by simp_all
    from "1.IH" [OF zs' this] Suc zs show ?thesis by simp
  qed
qed simp_all

lemma series_add_Num:
  assumes "series_add x y = Inr z" and "i < length (snd x)" and "i < length (snd y)"
    and "snd x ! i = Num a" and "snd y ! i = Num b"
  shows "i < length (snd z) \<and> snd z ! i = Num (a + b)"
proof -
  from assms(1) obtain zs where zs: "cells_add (snd x) (snd y) = Inr zs" and z: "snd z = zs"
    by (auto simp: series_add_def and_then_Inr_iff)
  from cells_add_nth [OF zs assms(2,3)] assms(4,5) z show ?thesis
    by simp
qed

text \<open>
  Claim C1, as amended. For every table with at least one column: when no column matches
  a required lookup, \<^verbatim>\<open>find_col\<close> raises a \<^verbatim>\<open>KeyError\<close> whose message names the field
  (its label) and which has printed the available columns; the loader stops there, so
  the error of a loader is the one of the first required field, in the order of the
  lookups, that no column matches (for the utility name that is after both of its
  keyword sets failed), and the columns it lists are those of the table and the dummy
  columns added until then. A loader that returns a table has found a column for every
  required field, and the field holds that column of the source: no placeholder stands
  in for a required field.
\<close>

theorem required_field_missing:
  fixes df :: "('n::plus) dataframe" and num_str :: "'n \<Rightarrow> string"
  defines "cols \<equiv> df_columns df"
  defines "name \<equiv> (case first_match [''utility name''] [] cols of
                      Some c \<Rightarrow> Some c | None \<Rightarrow> first_match [''entity''] [] cols)"
  shows
    "(\<forall>include exclude label cs.
        no_column_error cs include exclude label =
          KeyError [S ''No column found for '', if label \<noteq> [] then S label else L include]
            ([S ''ERROR: No column found matching include='', L include, S '', exclude='',
              L exclude]
             # [S ''Available columns:'']
             # map (\<lambda>c. [S ''  -'', S c]) cs)) \<and>
     (\<forall>include exclude label.
        first_match include exclude cols = None \<longrightarrow>
        find_col df include exclude True label =
          Inl (no_column_error cols include exclude label)) \<and>
     (df \<noteq> [] \<and> name = None \<longrightarrow>
        load_utility_schedule num_str df =
          Inl (no_column_error cols [''entity''] [] ''Utility Name'')) \<and>
     (df \<noteq> [] \<and> name \<noteq> None \<and> first_match [''state''] [] cols = None \<longrightarrow>
        load_utility_schedule num_str df =
          Inl (no_column_error cols [''state''] [] ''State'')) \<and>
     (\<forall>out. load_utility_schedule num_str df = Inr out \<longrightarrow>
        (\<exists>c x. name = Some c \<and> map_of df c = Some x \<and>
               map_of out ''Utility.Name'' = Some (astype_str num_str x)) \<and>
        (\<exists>c x. first_match [''state''] [] cols = Some c \<and> map_of df c = Some x \<and>
               map_of out ''Utility.State'' = Some x)) \<and>
     (df \<noteq> [] \<and>
      (\<exists>f inc l. Required f inc l \<in> set operational_statements \<and>
         first_match inc [] cols = None) \<longrightarrow>
        (\<exists>i f inc l ds.
           i < length operational_statements \<and>
           operational_statements ! i = Required f inc l \<and>
           first_match inc [] cols = None \<and>
           (\<forall>j < i. \<forall>f' inc' l'. operational_statements ! j = Required f' inc' l' \<longrightarrow>
              first_match inc' [] cols \<noteq> None) \<and>
           set ds \<subseteq> set operational_dummies \<and>
           load_operational_schedule df = Inl (no_column_error (cols @ ds) inc [] l))) \<and>
     (\<forall>out. load_operational_schedule df = Inr out \<longrightarrow>
        (\<forall>f inc l. Required f inc l \<in> set operational_statements \<longrightarrow>
           (\<exists>c x. first_match inc [] cols = Some c \<and> map_of df c = Some x \<and>
                  map_of out f = Some x)))"
proof (intro conjI)
  show "\<forall>include exclude label cs.
        no_column_error cs include exclude label =
          KeyError [S ''No column found for '', if label \<noteq> [] then S label else L include]
            ([S ''ERROR: No column found matching include='', L include, S '', exclude='',
              L exclude]
             # [S ''Available columns:'']
             # map (\<lambda>c. [S ''  -'', S c]) cs)"
    by (simp add: no_column_error_def available_columns_def)
next
  show "\<forall>include exclude label.
        first_match include exclude cols = None \<longrightarrow>
        find_col df include exclude True label =
          Inl (no_column_error cols include exclude label)"
    by (simp add: find_col_required cols_def)
next
  show "df \<noteq> [] \<and> name = None \<longrightarrow>
        load_utility_schedule num_str df =
          Inl (no_column_error cols [''entity''] [] ''Utility Name'')"
    using load_utility_schedule_cases(1) [of df num_str]
    unfolding name_def cols_def by blast
next
  show "df \<noteq> [] \<and> name \<noteq> None \<and> first_match [''state''] [] cols = None \<longrightarrow>
        load_utility_schedule num_str df =
          Inl (no_column_error cols [''state''] [] ''State'')"
    using load_utility_schedule_cases(2) [of df num_str]
    unfolding name_def cols_def by blast
next
  show "\<forall>out. load_utility_schedule num_str df = Inr out \<longrightarrow>
        (\<exists>c x. name = Some c \<and> map_of df c = Some x \<and>
               map_of out ''Utility.Name'' = Some (astype_str num_str x)) \<and>
        (\<exists>c x. first_match [''state''] [] cols = Some c \<and> map_of df c = Some x \<and>
               map_of out ''Utility.State'' = Some x)"
  proof (intro allI impI)
    fix out
    assume out: "load_utility_schedule num_str df = Inr out"
    then have nonempty: "df \<noteq> []"
      by (auto simp: load_utility_schedule_def get_utility_id_col_empty)
    from out load_utility_schedule_cases(1) [OF nonempty, of num_str]
    obtain c where c: "name = Some c"
      unfolding name_def cols_def by (cases name) (auto simp: name_def cols_def)
    from out c load_utility_schedule_cases(2) [OF nonempty, of num_str]
    obtain c' where c': "first_match [''state''] [] cols = Some c'"
      unfolding name_def cols_def by (cases "first_match [''state''] [] (df_columns df)") auto
    from load_utility_schedule_cases(3) [OF nonempty, of c c' num_str] c c' out
    show "(\<exists>c x. name = Some c \<and> map_of df c = Some x \<and>
               map_of out ''Utility.Name'' = Some (astype_str num_str x)) \<and>
        (\<exists>c x. first_match [''state''] [] cols = Some c \<and> map_of df c = Some x \<and>
               map_of out ''Utility.State'' = Some x)"
      unfolding name_def cols_def by auto
  qed
next
  show "df \<noteq> [] \<and>
      (\<exists>f inc l. Required f inc l \<in> set operational_statements \<and>
         first_match inc [] cols = None) \<longrightarrow>
        (\<exists>i f inc l ds.
           i < length operational_statements \<and>
           operational_statements ! i = Required f inc l \<and>
           first_match inc [] cols = None \<and>
           (\<forall>j < i. \<forall>f' inc' l'. operational_statements ! j = Required f' inc' l' \<longrightarrow>
              first_match inc' [] cols \<noteq> None) \<and>
           set ds \<subseteq> set operational_dummies \<and>
           load_operational_schedule df = Inl (no_column_error (cols @ ds) inc [] l))"
  proof
    assume "df \<noteq> [] \<and>
      (\<exists>f inc l. Required f inc l \<in> set operational_statements \<and>
         first_match inc [] cols = None)"
    then have "\<exists>i f inc l ds. i < length operational_statements \<and>
           operational_statements ! i = Required f inc l \<and>
           first_match inc [] (df_columns df) = None \<and>
           (\<forall>j < i. \<forall>f' inc' l'. operational_statements ! j = Required f' inc' l' \<longrightarrow>
              first_match inc' [] (df_columns df) \<noteq> None) \<and>
           set ds \<subseteq> set operational_dummies \<and>
           load_operational_fields df = Inl (no_column_error (df_columns df @ ds) inc [] l)"
      unfolding cols_def by (intro load_operational_fields_missing) auto
    then show "\<exists>i f inc l ds.
           i < length operational_statements \<and>
           operational_statements ! i = Required f inc l \<and>
           first_match inc [] cols = None \<and>
           (\<forall>j < i. \<forall>f' inc' l'. operational_statements ! j = Required f' inc' l' \<longrightarrow>
              first_match inc' [] cols \<noteq> None) \<and>
           set ds \<subseteq> set operational_dummies \<and>
           load_operational_schedule df = Inl (no_column_error (cols @ ds) inc [] l)"
      unfolding cols_def using load_operational_schedule_Inl by blast
  qed
next
  show "\<forall>out. load_operational_schedule df = Inr out \<longrightarrow>
        (\<forall>f inc l. Required f inc l \<in> set operational_statements \<longrightarrow>
           (\<exists>c x. first_match inc [] cols = Some c \<and> map_of df c = Some x \<and>
                  map_of out f = Some x))"
  proof (intro allI impI)
    fix out f inc l
    assume out: "load_operational_schedule df = Inr out"
      and req: "Required f inc l \<in> set operational_statements"
    from load_operational_schedule_Inr [OF out] obtain df' fields total
      where fields: "load_operational_fields df = Inr (df', fields)"
        and total: "out = setitem fields ''Revenue.Total'' total"
      by blast
    from load_operational_fields_Inr [OF fields] req obtain c x
      where "first_match inc [] (df_columns df) = Some c" "map_of df c = Some x"
        "map_of fields f = Some x"
      by blast
    with total revenue_total_not_required [OF req]
    show "\<exists>c x. first_match inc [] cols = Some c \<and> map_of df c = Some x \<and> map_of out f = Some x"
      unfolding cols_def by (simp add: map_of_setitem)
  qed
qed

theorem required_field_missing_witness:
  "load_utility_schedule str_int utility_no_state =
     Inl (no_column_error (df_columns utility_no_state) [''state''] [] ''State'') \<and>
   (\<exists>inc l ds.
      first_match inc [] (df_columns operational_no_other) = None \<and>
      load_operational_schedule operational_no_other =
        Inl (no_column_error (df_columns operational_no_other @ ds) inc [] l))"
proof -
  have nonempty: "utility_no_state \<noteq> []"
    by (simp add: utility_no_state_def)
  have name: "(case first_match [''utility name''] [] (df_columns utility_no_state) of
                 Some c \<Rightarrow> Some c
               | None \<Rightarrow> first_match [''entity''] [] (df_columns utility_no_state)) \<noteq> None"
    by code_simp
  have state: "first_match [''state''] [] (df_columns utility_no_state) = None"
    by code_simp
  from nonempty name state
    required_field_missing [where df = utility_no_state and num_str = str_int,
      THEN conjunct2, THEN conjunct2, THEN conjunct2, THEN conjunct1]
  have utility: "load_utility_schedule str_int utility_no_state =
     Inl (no_column_error (df_columns utility_no_state) [''state''] [] ''State'')"
    by blast
  have nonempty': "operational_no_other \<noteq> []"
    by (simp add: operational_no_other_def operational_mwh_def)
  have req: "Required ''Revenue.Other'' [''from'', ''other''] ''Revenue.Other''
      \<in> set operational_statements"
    by (simp add: operational_statements_def)
  have other: "first_match [''from'', ''other''] [] (df_columns operational_no_other) = None"
    by code_simp
  from nonempty' req other
    required_field_missing [where df = operational_no_other and num_str = str_int,
      THEN conjunct2, THEN conjunct2, THEN conjunct2, THEN conjunct2, THEN conjunct2,
      THEN conjunct1]
  have "\<exists>inc l ds.
      first_match inc [] (df_columns operational_no_other) = None \<and>
      load_operational_schedule operational_no_other =
        Inl (no_column_error (df_columns operational_no_other @ ds) inc [] l)"
    by blast
  with utility show ?thesis
    by blast
qed

text \<open>
  On a table without columns no column matches \<^verbatim>\<open>state\<close>, and the loaders stop earlier,
  in the join key resolution, with \<^verbatim>\<open>IndexError\<close>: not with the error of the missing field.
\<close>

theorem required_field_missing_no_columns:
  "first_match [''state''] [] (df_columns ([] :: int dataframe)) = None \<and>
   load_utility_schedule str_int [] = Inl IndexError \<and>
   load_operational_schedule ([] :: int dataframe) = Inl IndexError"
  by (simp add: df_columns_def load_utility_schedule_def load_operational_schedule_def
      load_operational_fields_def get_utility_id_col_empty)

lemma revenue_parts_required:
  "Required ''Revenues.Retail'' [''from'', ''retail'', ''sales''] ''Revenues.Retail''
     \<in> set operational_statements"
  "Required ''Revenue.Delivery'' [''from'', ''delivery'', ''customers''] ''Revenue.Delivery''
     \<in> set operational_statements"
  "Required ''Revenue.Resale'' [''from'', ''sales'', ''for resale''] ''Revenue.Resale''
     \<in> set operational_statements"
  "Required ''Revenue.Adjustments'' [''from'', ''credits'', ''adjustments''] ''Revenue.Adjustments''
     \<in> set operational_statements"
  "Required ''Revenue.Transmission'' [''from'', ''transmission''] ''Revenue.Transmission''
     \<in> set operational_statements"
  "Required ''Revenue.Other'' [''from'', ''other''] ''Revenue.Other''
     \<in> set operational_statements"
  by (simp_all add: operational_statements_def)

lemma sum_parts_Inr:
  assumes "sum_parts fields = Inr rev_total"
  shows "\<exists>a b c d e f ab abc abcd abcde.
           map_of fields ''Revenues.Retail'' = Some a \<and>
           map_of fields ''Revenue.Delivery'' = Some b \<and>
           map_of fields ''Revenue.Resale'' = Some c \<and>
           map_of fields ''Revenue.Adjustments'' = Some d \<and>
           map_of fields ''Revenue.Transmission'' = Some e \<and>
           map_of fields ''Revenue.Other'' = Some f \<and>
           series_add a b = Inr ab \<and> series_add ab c = Inr abc \<and>
           series_add abc d = Inr abcd \<and> series_add abcd e = Inr abcde \<and>
           series_add abcde f = Inr rev_total"
proof -
  have get: "getitem fields (Some k) = Inr x \<longleftrightarrow> map_of fields k = Some x" for k x
    by (auto simp: getitem_def split: option.splits)
  from assms show ?thesis
    unfolding sum_parts_def and_then_Inr_iff get by blast
qed

text \<open>
  The last step of the operational loader, relative to \<open>df'\<close>, the table as it is when the
  lookup runs (the source table and the dummy columns that the loader has added to it):
  if the lookup finds a column of \<open>df'\<close> with \<^verbatim>\<open>total\<close> and without \<^verbatim>\<open>sales\<close>,
  \<^verbatim>\<open>customers\<close>, \<^verbatim>\<open>mwh\<close>, \<^verbatim>\<open>kwh\<close> in its name, \<^verbatim>\<open>Revenue.Total\<close> is that column as it
  is; otherwise it is the sum, from left to right, of the six revenue fields of the
  output, each of which was resolved before to a column of the source (on a row where
  the six cells are numbers, the total is their sum). All other fields are untouched by
  this step.
\<close>

lemma revenue_total_lookup:
  fixes df :: "('n::plus) dataframe"
  assumes "load_operational_schedule df = Inr out"
  defines "explicit \<equiv> \<lambda>df'. first_match [''total''] [''sales'', ''customers'', ''mwh'', ''kwh'']
                              (df_columns df')"
  shows "\<exists>df' fields.
           load_operational_fields df = Inr (df', fields) \<and>
           (\<forall>c. c \<notin> set operational_dummies \<longrightarrow> map_of df' c = map_of df c) \<and>
           (\<forall>f. f \<noteq> ''Revenue.Total'' \<longrightarrow> map_of out f = map_of fields f) \<and>
           (\<forall>col. explicit df' = Some col \<longrightarrow>
              map_of df' col \<noteq> None \<and> map_of out ''Revenue.Total'' = map_of df' col) \<and>
           (explicit df' = None \<longrightarrow>
              (\<exists>a b c d e f ab abc abcd abcde rev_total.
                 map_of fields ''Revenues.Retail'' = Some a \<and>
                 map_of fields ''Revenue.Delivery'' = Some b \<and>
                 map_of fields ''Revenue.Resale'' = Some c \<and>
                 map_of fields ''Revenue.Adjustments'' = Some d \<and>
                 map_of fields ''Revenue.Transmission'' = Some e \<and>
                 map_of fields ''Revenue.Other'' = Some f \<and>
                 (\<exists>col. first_match [''from'', ''retail'', ''sales''] [] (df_columns df) = Some col \<and>
                        map_of df col = Some a) \<and>
                 (\<exists>col. first_match [''from'', ''delivery'', ''customers''] [] (df_columns df) = Some col \<and>
                        map_of df col = Some b) \<and>
                 (\<exists>col. first_match [''from'', ''sales'', ''for resale''] [] (df_columns df) = Some col \<and>
                        map_of df col = Some c) \<and>
                 (\<exists>col. first_match [''from'', ''credits'', ''adjustments''] [] (df_columns df) = Some col \<and>
                        map_of df col = Some d) \<and>
                 (\<exists>col. first_match [''from'', ''transmission''] [] (df_columns df) = Some col \<and>
                        map_of df col = Some e) \<and>
                 (\<exists>col. first_match [''from'', ''other''] [] (df_columns df) = Some col \<and>
                        map_of df col = Some f) \<and>
                 series_add a b = Inr ab \<and> series_add ab c = Inr abc \<and>
                 series_add abc d = Inr abcd \<and> series_add abcd e = Inr abcde \<and>
                 series_add abcde f = Inr rev_total \<and>
                 map_of out ''Revenue.Total'' = Some rev_total \<and>
                 (\<forall>i v1 v2 v3 v4 v5 v6.
                    i < length (snd a) \<and> i < length (snd b) \<and> i < length (snd c) \<and>
                    i < length (snd d) \<and> i < length (snd e) \<and> i < length (snd f) \<and>
                    snd a ! i = Num v1 \<and> snd b ! i = Num v2 \<and> snd c ! i = Num v3 \<and>
                    snd d ! i = Num v4 \<and> snd e ! i = Num v5 \<and> snd f ! i = Num v6 \<longrightarrow>
                    snd rev_total ! i = Num (v1 + v2 + v3 + v4 + v5 + v6))))"
proof -
  from load_operational_schedule_Inr [OF assms(1)] obtain df' fields rev_total
    where fields: "load_operational_fields df = Inr (df', fields)"
      and out: "out = setitem fields ''Revenue.Total'' rev_total"
      and rev_total: "case explicit df' of Some c \<Rightarrow> map_of df' c = Some rev_total
                  | None \<Rightarrow> sum_parts fields = Inr rev_total"
    unfolding explicit_def by blast
  note resolved = load_operational_fields_Inr [OF fields]
  from resolved have agree: "\<forall>c. c \<notin> set operational_dummies \<longrightarrow> map_of df' c = map_of df c"
    by blast
  from out have others: "\<forall>f. f \<noteq> ''Revenue.Total'' \<longrightarrow> map_of out f = map_of fields f"
    by (simp add: map_of_setitem)
  from out rev_total have verbatim: "\<forall>col. explicit df' = Some col \<longrightarrow>
      map_of df' col \<noteq> None \<and> map_of out ''Revenue.Total'' = map_of df' col"
    by (auto simp: map_of_setitem)
  have parts: "\<exists>col. first_match inc [] (df_columns df) = Some col \<and> map_of df col = Some x"
    if "Required g inc l \<in> set operational_statements" "map_of fields g = Some x" for g inc l x
    using resolved that by fastforce
  have summed: "\<exists>a b c d e f ab abc abcd abcde rev_total.
                 map_of fields ''Revenues.Retail'' = Some a \<and>
                 map_of fields ''Revenue.Delivery'' = Some b \<and>
                 map_of fields ''Revenue.Resale'' = Some c \<and>
                 map_of fields ''Revenue.Adjustments'' = Some d \<and>
                 map_of fields ''Revenue.Transmission'' = Some e \<and>
                 map_of fields ''Revenue.Other'' = Some f \<and>
                 (\<exists>col. first_match [''from'', ''retail'', ''sales''] [] (df_columns df) = Some col \<and>
                        map_of df col = Some a) \<and>
                 (\<exists>col. first_match [''from'', ''delivery'', ''customers''] [] (df_columns df) = Some col \<and>
                        map_of df col = Some b) \<and>
                 (\<exists>col. first_match [''from'', ''sales'', ''for resale''] [] (df_columns df) = Some col \<and>
                        map_of df col = Some c) \<and>
                 (\<exists>col. first_match [''from'', ''credits'', ''adjustments''] [] (df_columns df) = Some col \<and>
                        map_of df col = Some d) \<and>
                 (\<exists>col. first_match [''from'', ''transmission''] [] (df_columns df) = Some col \<and>
                        map_of df col = Some e) \<and>
                 (\<exists>col. first_match [''from'', ''other''] [] (df_columns df) = Some col \<and>
                        map_of df col = Some f) \<and>
                 series_add a b = Inr ab \<and> series_add ab c = Inr abc \<and>
                 series_add abc d = Inr abcd \<and> series_add abcd e = Inr abcde \<and>
                 series_add abcde f = Inr rev_total \<and>
                 map_of out ''Revenue.Total'' = Some rev_total \<and>
                 (\<forall>i v1 v2 v3 v4 v5 v6.
                    i < length (snd a) \<and> i < length (snd b) \<and> i < length (snd c) \<and>
                    i < length (snd d) \<and> i < length (snd e) \<and> i < length (snd f) \<and>
                    snd a ! i = Num v1 \<and> snd b ! i = Num v2 \<and> snd c ! i = Num v3 \<and>
                    snd d ! i = Num v4 \<and> snd e ! i = Num v5 \<and> snd f ! i = Num v6 \<longrightarrow>
                    snd rev_total ! i = Num (v1 + v2 + v3 + v4 + v5 + v6))"
    if none: "explicit df' = None"
  proof -
    from rev_total none have "sum_parts fields = Inr rev_total"
      by simp
    from sum_parts_Inr [OF this] obtain a b c d e f ab abc abcd abcde
      where m: "map_of fields ''Revenues.Retail'' = Some a"
        "map_of fields ''Revenue.Delivery'' = Some b"
        "map_of fields ''Revenue.Resale'' = Some c"
        "map_of fields ''Revenue.Adjustments'' = Some d"
        "map_of fields ''Revenue.Transmission'' = Some e"
        "map_of fields ''Revenue.Other'' = Some f"
        and s: "series_add a b = Inr ab" "series_add ab c = Inr abc"
        "series_add abc d = Inr abcd" "series_add abcd e = Inr abcde"
        "series_add abcde f = Inr rev_total"
      by blast
    have cellwise: "snd rev_total ! i = Num (v1 + v2 + v3 + v4 + v5 + v6)"
      if "i < length (snd a)" "i < length (snd b)" "i < length (snd c)"
        "i < length (snd d)" "i < length (snd e)" "i < length (snd f)"
        "snd a ! i = Num v1" "snd b ! i = Num v2" "snd c ! i = Num v3"
        "snd d ! i = Num v4" "snd e ! i = Num v5" "snd f ! i = Num v6"
      for i v1 v2 v3 v4 v5 v6
    proof -
      from series_add_Num [OF s(1) that(1,2,7,8)]
      have 1: "i < length (snd ab)" "snd ab ! i = Num (v1 + v2)" by simp_all
      from series_add_Num [OF s(2) 1(1) that(3) 1(2) that(9)]
      have 2: "i < length (snd abc)" "snd abc ! i = Num (v1 + v2 + v3)" by simp_all
      from series_add_Num [OF s(3) 2(1) that(4) 2(2) that(10)]
      have 3: "i < length (snd abcd)" "snd abcd ! i = Num (v1 + v2 + v3 + v4)" by simp_all
      from series_add_Num [OF s(4) 3(1) that(5) 3(2) that(11)]
      have 4: "i < length (snd abcde)" "snd abcde ! i = Num (v1 + v2 + v3 + v4 + v5)" by simp_all
      from series_add_Num [OF s(5) 4(1) that(6) 4(2) that(12)]
      show ?thesis by simp
    qed
    from out have t: "map_of out ''Revenue.Total'' = Some rev_total"
      by (simp add: map_of_setitem)
    note p = parts [OF revenue_parts_required(1) m(1)] parts [OF revenue_parts_required(2) m(2)]
      parts [OF revenue_parts_required(3) m(3)] parts [OF revenue_parts_required(4) m(4)]
      parts [OF revenue_parts_required(5) m(5)] parts [OF revenue_parts_required(6) m(6)]
    have cells: "\<forall>i v1 v2 v3 v4 v5 v6.
        i < length (snd a) \<and> i < length (snd b) \<and> i < length (snd c) \<and>
        i < length (snd d) \<and> i < length (snd e) \<and> i < length (snd f) \<and>
        snd a ! i = Num v1 \<and> snd b ! i = Num v2 \<and> snd c ! i = Num v3 \<and>
        snd d ! i = Num v4 \<and> snd e ! i = Num v5 \<and> snd f ! i = Num v6 \<longrightarrow>
        snd rev_total ! i = Num (v1 + v2 + v3 + v4 + v5 + v6)"
      using cellwise by blast
    show ?thesis
      by (rule exI [of _ a], rule exI [of _ b], rule exI [of _ c], rule exI [of _ d],
          rule exI [of _ e], rule exI [of _ f], rule exI [of _ ab], rule exI [of _ abc],
          rule exI [of _ abcd], rule exI [of _ abcde], rule exI [of _ rev_total])
        (intro conjI; fact m s t p cells)
  qed
  from fields agree others verbatim summed show ?thesis
    by (intro exI [of _ df'] exI [of _ fields] conjI impI) assumption+
qed

lemma revenue_total_lookup_example:
  "\<exists>out df' fields.
     load_operational_schedule operational_mwh = Inr out \<and>
     load_operational_fields operational_mwh = Inr (df', fields) \<and>
     first_match [''total''] [''sales'', ''customers'', ''mwh'', ''kwh''] (df_columns df') = None \<and>
     map_of fields ''Revenues.Retail'' = Some (Number, [Num 1000, Num 2000]) \<and>
     map_of out ''Revenue.Total'' = Some (Number, [Num 1025, Null])"
proof -
  have run: "\<not> isl (load_operational_schedule operational_mwh) \<and>
      map_of (projr (load_operational_schedule operational_mwh)) ''Revenue.Total'' =
        Some (Number, [Num 1025, Null]) \<and>
      map_of (projr (load_operational_schedule operational_mwh)) ''Revenues.Retail'' =
        Some (Number, [Num 1000, Num 2000])"
    by code_simp
  then obtain out where out: "load_operational_schedule operational_mwh = Inr out"
    by (cases "load_operational_schedule operational_mwh") auto
  from revenue_total_lookup [OF out] obtain df' fields
    where fields: "load_operational_fields operational_mwh = Inr (df', fields)"
      and others: "\<forall>f. f \<noteq> ''Revenue.Total'' \<longrightarrow> map_of out f = map_of fields f"
    by blast
  have "first_match [''total''] [''sales'', ''customers'', ''mwh'', ''kwh'']
      (df_columns (fst (projr (load_operational_fields operational_mwh)))) = None"
    by code_simp
  with fields have none: "first_match [''total''] [''sales'', ''customers'', ''mwh'', ''kwh'']
      (df_columns df') = None"
    by simp
  from run out have tot: "map_of out ''Revenue.Total'' = Some (Number, [Num 1025, Null])"
    by simp
  from run out others
  have "map_of fields ''Revenues.Retail'' = Some (Number, [Num 1000, Num 2000])"
    by simp
  with out fields none tot show ?thesis
    by blast
qed

text \<open>
  Claim C6 does not hold of the code. The claim, like the comment above the lookup
  (\<^verbatim>\<open>explicit total if present; otherwise sum parts\<close>), lets \<^verbatim>\<open>Revenue.Total\<close> be an
  explicit total-revenue column of the source, and the sum of the six revenue fields when
  the source has none. The lookup accepts any column of \<^verbatim>\<open>df\<close> with \<^verbatim>\<open>total\<close> in its name
  and without \<^verbatim>\<open>sales\<close>, \<^verbatim>\<open>customers\<close>, \<^verbatim>\<open>mwh\<close>, \<^verbatim>\<open>kwh\<close>, and it runs after the
  loader has added its dummy columns to \<^verbatim>\<open>df\<close>.

  In \<open>operational_no_total_sources\<close> no column of the source passes the lookup, and the
  six revenue fields sum to 1025 and a missing value. The loader has added
  \<^verbatim>\<open>__total_sources_dummy__\<close> for the missing energy total, the lookup finds that column,
  and \<^verbatim>\<open>Revenue.Total\<close> is the dummy column: all missing, no sum.

  In \<open>operational_totals\<close> the lookup stops at \<^verbatim>\<open>Total Sources\<close>, an energy total that
  stands before the revenue columns: \<^verbatim>\<open>Revenue.Total\<close> is 100 and 205 where the
  revenue column \<^verbatim>\<open>Total\<close>, and the sum of the six revenue fields, are 1025 and 2030.
\<close>

theorem revenue_total_placeholder:
  "first_match [''total''] [''sales'', ''customers'', ''mwh'', ''kwh'']
     (df_columns operational_no_total_sources) = None \<and>
   and_then (load_operational_fields operational_no_total_sources)
     (\<lambda>(df', fields). sum_parts fields) = Inr (Number, [Num 1025, Null]) \<and>
   and_then (load_operational_fields operational_no_total_sources)
     (\<lambda>(df', fields). Inr (first_match [''total''] [''sales'', ''customers'', ''mwh'', ''kwh'']
        (df_columns df'))) = Inr (Some ''__total_sources_dummy__'') \<and>
   and_then (load_operational_schedule operational_no_total_sources)
     (\<lambda>out. getitem out (Some ''Revenue.Total'')) = Inr (Object, [Null, Null]) \<and>
   first_match [''total''] [''sales'', ''customers'', ''mwh'', ''kwh'']
     (df_columns operational_totals) = Some ''Total Sources'' \<and>
   and_then (load_operational_fields operational_totals)
     (\<lambda>(df', fields). sum_parts fields) = Inr (Number, [Num 1025, Num 2030]) \<and>
   getitem operational_totals (Some ''Total'') = Inr (Number, [Num 1025, Num 2030]) \<and>
   and_then (load_operational_schedule operational_totals)
     (\<lambda>out. getitem out (Some ''Revenue.Total'')) = Inr (Number, [Num 100, Num 205])"
  by code_simp

section \<open>Facts about the sales loader\<close>

lemma first_index_None:
  "first_index P xs i = None \<longleftrightarrow> (\<forall>x \<in> set xs. \<not> P x)"
  by (induction xs arbitrary: i) auto












section \<open>The claims about the sales loader\<close>













section \<open>Facts about the cleaning\<close>








end
